theory Spec2Isabelle
  imports Main
begin

section \<open>Constants (server.js, lines 10-12)\<close>

definition BASE_URL :: string where
  "BASE_URL = ''https://srv129.services.gc.ca/ei_regions/eng/''"

definition POSTAL_CODE_ENDPOINT :: string where
  "POSTAL_CODE_ENDPOINT = ''postalcode.aspx?_code=''"

definition THIRTY_DAYS_IN_MS :: int where
  "THIRTY_DAYS_IN_MS = 30 * 24 * 60 * 60 * 1000"

section \<open>Freshness (server.js, lines 52-54)\<close>

text \<open>
  Timestamps are milliseconds since the epoch, as \<open>Date.now()\<close> and \<open>getTime()\<close>
  give them. They stay far below \<open>2^53\<close>, so the subtraction of the source is exact and
  \<open>int\<close> models it. The clock reading is a parameter: \<open>isDataStale now retrievalDate\<close>
  is the source's \<open>isDataStale(retrievalDate)\<close> evaluated when \<open>Date.now()\<close> is \<open>now\<close>.
\<close>

definition isDataStale :: "int \<Rightarrow> int \<Rightarrow> bool" where
  "isDataStale now retrievalDate = (now - retrievalDate > THIRTY_DAYS_IN_MS)"

section \<open>JavaScript values and strings\<close>

text \<open>
  A property that holds a string in the source may also be \<open>undefined\<close> (no anchor in the
  cell, no row in the table) or \<open>null\<close> (a NULL column read back from the store).
\<close>

datatype jsval = Undefined | Null | Str string

text \<open>Interpolation in a template literal.\<close>

fun template :: "jsval \<Rightarrow> string" where
  "template Undefined = ''undefined''"
| "template Null = ''null''"
| "template (Str s) = s"

text \<open>
  A query parameter bound to a TEXT column: the driver sends \<open>undefined\<close> and \<open>null\<close>
  as NULL. A column read back is a string or \<open>null\<close>.
\<close>

fun pg_param :: "jsval \<Rightarrow> string option" where
  "pg_param (Str s) = Some s"
| "pg_param Undefined = None"
| "pg_param Null = None"

fun pg_column :: "string option \<Rightarrow> jsval" where
  "pg_column None = Null"
| "pg_column (Some s) = Str s"

text \<open>
  \<open>postalCode.replace(' ', '')\<close>: with a string pattern, \<open>replace\<close> rewrites the first
  occurrence only.
\<close>

fun replace_first_space :: "string \<Rightarrow> string" where
  "replace_first_space [] = []"
| "replace_first_space (c # cs) = (if c = CHR '' '' then cs else c # replace_first_space cs)"

text \<open>
  \<open>trim()\<close> on the white space and line terminators of the ASCII range (tab, line feed,
  vertical tab, form feed, carriage return, space).
\<close>

definition is_ws :: "char \<Rightarrow> bool" where
  "is_ws c = (c \<in> {CHR 0x09, CHR 0x0A, CHR 0x0B, CHR 0x0C, CHR 0x0D, CHR '' ''})"

definition trim :: "string \<Rightarrow> string" where
  "trim s = rev (dropWhile is_ws (rev (dropWhile is_ws s)))"

section \<open>Fetched pages\<close>

text \<open>
  The HTML parser is a library. A fetched page is taken as what the selectors of the
  source see in it: for a table id, the \<open>tr\<close> elements of its \<open>tbody\<close> in document
  order (none when the table is absent), each row the list of its \<open>td\<close> cells, each cell
  its text content and its anchors (text and \<open>href\<close> attribute, when present).
\<close>

record cell =
  cell_text :: string
  cell_anchors :: "(string \<times> string option) list"

type_synonym html = "string \<Rightarrow> cell list list"

text \<open>\<open>$(cells[i]).text().trim()\<close>: an index past the end selects nothing, whose text is empty.\<close>

definition text_at :: "cell list \<Rightarrow> nat \<Rightarrow> string" where
  "text_at cells i = trim (if i < length cells then cell_text (cells ! i) else [])"

text \<open>\<open>$(cells[i]).find('a').text().trim()\<close>: the texts of all anchors, concatenated.\<close>

definition anchor_text_at :: "cell list \<Rightarrow> nat \<Rightarrow> string" where
  "anchor_text_at cells i =
     trim (if i < length cells then concat (map fst (cell_anchors (cells ! i))) else [])"

text \<open>\<open>$(cells[i]).find('a').attr('href')\<close>: the attribute of the first anchor.\<close>

definition anchor_href_at :: "cell list \<Rightarrow> nat \<Rightarrow> jsval" where
  "anchor_href_at cells i =
     (if i < length cells then
        (case cell_anchors (cells ! i) of
           [] \<Rightarrow> Undefined
         | a # _ \<Rightarrow> (case snd a of None \<Rightarrow> Undefined | Some h \<Rightarrow> Str h))
      else Undefined)"

section \<open>The store (server.js, lines 25-49)\<close>

text \<open>
  Two tables, each a list of rows. The key column is \<open>TEXT PRIMARY KEY\<close>, the other text
  columns may hold NULL (\<open>None\<close>); \<open>date_retrieved\<close> is always bound to a date by the
  code that writes it.
\<close>

record postal_row =
  postal_code :: string
  census_subdivision_name :: "string option"
  common_name :: "string option"
  census_division_name :: "string option"
  ei_economic_region_name :: "string option"
  ei_economic_region_url :: "string option"
  date_retrieved :: int

record region_row =
  economic_region_name :: string
  province :: "string option"
  economic_region_code :: "string option"
  unemployment_rate :: "string option"
  insured_hours_required :: "string option"
  min_weeks_payable :: "string option"
  max_weeks_payable :: "string option"
  best_weeks_required :: "string option"
  region_date_retrieved :: int

record store =
  postal_code_data :: "postal_row list"
  economic_region_data :: "region_row list"

text \<open>\<open>SELECT * FROM postal_code_data WHERE postal_code = $1\<close>, then \<open>result.rows[0]\<close>.\<close>

definition select_postal :: "string \<Rightarrow> postal_row list \<Rightarrow> postal_row option" where
  "select_postal k rows = find (\<lambda>r. postal_code r = k) rows"

text \<open>
  \<open>SELECT * FROM economic_region_data WHERE economic_region_name = $1\<close>, then
  \<open>result.rows[0]\<close>. A NULL parameter equals no key.
\<close>

definition select_region :: "jsval \<Rightarrow> region_row list \<Rightarrow> region_row option" where
  "select_region k rows =
     (case pg_param k of
        None \<Rightarrow> None
      | Some n \<Rightarrow> find (\<lambda>r. economic_region_name r = n) rows)"

text \<open>
  \<open>INSERT ... ON CONFLICT (postal_code) DO UPDATE SET ...\<close> (lines 128-136): the row with
  the key takes the six listed columns from the new row; without such a row the new row
  is added.
\<close>

fun upsert_postal :: "postal_row \<Rightarrow> postal_row list \<Rightarrow> postal_row list" where
  "upsert_postal new [] = [new]"
| "upsert_postal new (r # rs) =
     (if postal_code r = postal_code new then
        r\<lparr>census_subdivision_name := census_subdivision_name new,
          common_name := common_name new,
          census_division_name := census_division_name new,
          ei_economic_region_name := ei_economic_region_name new,
          ei_economic_region_url := ei_economic_region_url new,
          date_retrieved := date_retrieved new\<rparr> # rs
      else r # upsert_postal new rs)"

text \<open>\<open>INSERT ... ON CONFLICT (economic_region_name) DO UPDATE SET ...\<close> (lines 177-187).\<close>

fun upsert_region :: "region_row \<Rightarrow> region_row list \<Rightarrow> region_row list" where
  "upsert_region new [] = [new]"
| "upsert_region new (r # rs) =
     (if economic_region_name r = economic_region_name new then
        r\<lparr>province := province new,
          economic_region_code := economic_region_code new,
          unemployment_rate := unemployment_rate new,
          insured_hours_required := insured_hours_required new,
          min_weeks_payable := min_weeks_payable new,
          max_weeks_payable := max_weeks_payable new,
          best_weeks_required := best_weeks_required new,
          region_date_retrieved := region_date_retrieved new\<rparr> # rs
      else r # upsert_region new rs)"

section \<open>Objects built by the handlers\<close>

text \<open>\<open>postalData\<close> (lines 116-124).\<close>

record postalData =
  PostalCode :: string
  CensusSubdivisionName :: string
  CommonName :: string
  CensusDivisionName :: string
  EIEconomicRegionName :: string
  EIEconomicRegionURL :: jsval
  postal_stamp :: int

text \<open>\<open>tableData\<close> (lines 66-78): created empty, so every property starts \<open>undefined\<close>.\<close>

record tableData =
  Province :: jsval
  EconomicRegionCode :: jsval
  EconomicRegionName :: jsval
  UnemploymentRate :: jsval
  InsuredHoursRequired :: jsval
  MinWeeksPayable :: jsval
  MaxWeeksPayable :: jsval
  BestWeeksRequired :: jsval

definition empty_tableData :: tableData where
  "empty_tableData =
     \<lparr>Province = Undefined, EconomicRegionCode = Undefined, EconomicRegionName = Undefined,
      UnemploymentRate = Undefined, InsuredHoursRequired = Undefined,
      MinWeeksPayable = Undefined, MaxWeeksPayable = Undefined,
      BestWeeksRequired = Undefined\<rparr>"

text \<open>
  What \<open>getEconomicRegionData\<close> resolves with: the stored row (line 166), or the scraped
  object with its \<open>date_retrieved\<close> (lines 173, 191).
\<close>

datatype region_details = EconRow region_row | EconRegionData tableData int

text \<open>
  The element of the \<open>data\<close> array of a successful response: the stored row (line 103) or
  \<open>postalData\<close> (line 143), each with its \<open>EconomicRegionDetails\<close>.
\<close>

datatype postal_result = PostalRow postal_row region_details | PostalData postalData region_details

datatype js_error = DatabaseError | RequestError

text \<open>
  How a request ends: \<open>res.json\<close> (status 200), \<open>res.status(500).json({error: ...})\<close>, or
  a rejection of the callback's promise that nothing handles, in which case no response
  is sent.
\<close>

datatype outcome = Json200 postal_result | Status500 string | UnhandledRejection js_error

section \<open>Environment and trace\<close>

text \<open>
  Input and output operations in the order the code starts them. \<open>Await\<close>: the code
  continues with the operation's result (a callback or \<open>await\<close>). \<open>Fire\<close>: the operation
  is started and the code continues at once, without its result (the two writes, which have
  neither callback nor \<open>await\<close>).
\<close>

datatype io =
    PostalSelect string
  | PostalPageGet string
  | PostalUpsert postal_row
  | RegionSelect jsval
  | RegionPageGet string
  | RegionUpsert jsval tableData int

datatype event = Await io | Fire io

text \<open>
  What the outside world answers during one request: whether each store query fails, what
  \<open>axios.get\<close> returns for a URL (\<open>None\<close>: the promise rejects), and the clock at the
  four places the code reads it.
\<close>

record env =
  postal_select_err :: bool
  region_select_err :: bool
  postal_upsert_ok :: bool
  region_upsert_ok :: bool
  http_get :: "string \<Rightarrow> html option"
  now_postal_check :: int
  now_postal_stamp :: int
  now_region_check :: int
  now_region_stamp :: int

section \<open>Region scraping (server.js, lines 57-83)\<close>

text \<open>One iteration of the row walk (lines 69-77).\<close>

definition scrape_row :: "tableData \<Rightarrow> cell list \<Rightarrow> tableData" where
  "scrape_row td cells =
     td\<lparr>Province := Str (text_at cells 0),
        EconomicRegionCode := Str (text_at cells 1),
        EconomicRegionName := Str (text_at cells 2),
        UnemploymentRate := Str (text_at cells 3),
        InsuredHoursRequired := Str (text_at cells 4),
        MinWeeksPayable := Str (text_at cells 5),
        MaxWeeksPayable := Str (text_at cells 6),
        BestWeeksRequired := Str (text_at cells 7)\<rparr>"

definition scrape_rows :: "cell list list \<Rightarrow> tableData" where
  "scrape_rows rows = foldl scrape_row empty_tableData rows"

definition region_page_url :: "jsval \<Rightarrow> string" where
  "region_page_url relativeURL = BASE_URL @ template relativeURL"

definition scrapeEconomicRegion :: "env \<Rightarrow> jsval \<Rightarrow> js_error + tableData" where
  "scrapeEconomicRegion e relativeURL =
     (case http_get e (region_page_url relativeURL) of
        None \<Rightarrow> Inl RequestError
      | Some page \<Rightarrow> Inr (scrape_rows (page ''regions'')))"

section \<open>Region lookup (server.js, lines 152-198)\<close>

text \<open>The parameters of the region write (line 188); a NULL key violates the primary key.\<close>

definition region_params :: "jsval \<Rightarrow> tableData \<Rightarrow> int \<Rightarrow> region_row option" where
  "region_params regionName td stamp =
     (case pg_param regionName of
        None \<Rightarrow> None
      | Some n \<Rightarrow>
          Some \<lparr>economic_region_name = n,
                province = pg_param (Province td),
                economic_region_code = pg_param (EconomicRegionCode td),
                unemployment_rate = pg_param (UnemploymentRate td),
                insured_hours_required = pg_param (InsuredHoursRequired td),
                min_weeks_payable = pg_param (MinWeeksPayable td),
                max_weeks_payable = pg_param (MaxWeeksPayable td),
                best_weeks_required = pg_param (BestWeeksRequired td),
                region_date_retrieved = stamp\<rparr>)"

text \<open>
  The store after a write that nothing waits for: the row is upserted when the query
  succeeds, and the store is as before when it fails; the failure reaches no handler.
\<close>

definition exec_region_upsert :: "env \<Rightarrow> jsval \<Rightarrow> tableData \<Rightarrow> int \<Rightarrow> store \<Rightarrow> store" where
  "exec_region_upsert e regionName td stamp s =
     (case region_params regionName td stamp of
        None \<Rightarrow> s
      | Some new \<Rightarrow>
          if region_upsert_ok e
          then s\<lparr>economic_region_data := upsert_region new (economic_region_data s)\<rparr>
          else s)"

text \<open>Lines 169-195: the branch taken when no fresh row was found.\<close>

definition region_miss ::
  "env \<Rightarrow> store \<Rightarrow> jsval \<Rightarrow> jsval \<Rightarrow> (js_error + region_details) \<times> store \<times> event list" where
  "region_miss e s regionName regionURL =
     (case scrapeEconomicRegion e regionURL of
        Inl err \<Rightarrow>
          (Inl err, s,
           [Await (RegionSelect regionName), Await (RegionPageGet (region_page_url regionURL))])
      | Inr td \<Rightarrow>
          (Inr (EconRegionData td (now_region_stamp e)),
           exec_region_upsert e regionName td (now_region_stamp e) s,
           [Await (RegionSelect regionName), Await (RegionPageGet (region_page_url regionURL)),
            Fire (RegionUpsert regionName td (now_region_stamp e))]))"

definition getEconomicRegionData ::
  "env \<Rightarrow> store \<Rightarrow> jsval \<Rightarrow> jsval \<Rightarrow> (js_error + region_details) \<times> store \<times> event list" where
  "getEconomicRegionData e s regionName regionURL =
     (if region_select_err e then (Inl DatabaseError, s, [Await (RegionSelect regionName)])
      else
        (case select_region regionName (economic_region_data s) of
           None \<Rightarrow> region_miss e s regionName regionURL
         | Some econRow \<Rightarrow>
             if \<not> isDataStale (now_region_check e) (region_date_retrieved econRow)
             then (Inr (EconRow econRow), s, [Await (RegionSelect regionName)])
             else region_miss e s regionName regionURL))"

section \<open>Postal lookup (server.js, lines 86-149)\<close>

definition postal_page_url :: "string \<Rightarrow> string" where
  "postal_page_url postalCode = BASE_URL @ POSTAL_CODE_ENDPOINT @ replace_first_space postalCode"

text \<open>Lines 111-124: the first row of the table with id \<open>table\<close>, and the object built from it.\<close>

definition first_row :: "cell list list \<Rightarrow> cell list" where
  "first_row rows = (case rows of [] \<Rightarrow> [] | r # _ \<Rightarrow> r)"

definition scrape_postal :: "html \<Rightarrow> int \<Rightarrow> postalData" where
  "scrape_postal page stamp =
     (let cells = first_row (page ''table'') in
      \<lparr>PostalCode = text_at cells 0,
       CensusSubdivisionName = text_at cells 1,
       CommonName = text_at cells 2,
       CensusDivisionName = text_at cells 3,
       EIEconomicRegionName = anchor_text_at cells 4,
       EIEconomicRegionURL = anchor_href_at cells 4,
       postal_stamp = stamp\<rparr>)"

text \<open>The parameters of the postal write (line 137).\<close>

definition postal_params :: "string \<Rightarrow> postalData \<Rightarrow> postal_row" where
  "postal_params postalCode pd =
     \<lparr>postal_code = postalCode,
      census_subdivision_name = Some (CensusSubdivisionName pd),
      common_name = Some (CommonName pd),
      census_division_name = Some (CensusDivisionName pd),
      ei_economic_region_name = Some (EIEconomicRegionName pd),
      ei_economic_region_url = pg_param (EIEconomicRegionURL pd),
      date_retrieved = postal_stamp pd\<rparr>"

definition exec_postal_upsert :: "env \<Rightarrow> postal_row \<Rightarrow> store \<Rightarrow> store" where
  "exec_postal_upsert e new s =
     (if postal_upsert_ok e
      then s\<lparr>postal_code_data := upsert_postal new (postal_code_data s)\<rparr>
      else s)"

text \<open>
  The call of line 102: the region name and locator are the columns of the stored row, the
  store is the one the postal read saw.
\<close>

definition region_call_hit ::
  "env \<Rightarrow> store \<Rightarrow> postal_row \<Rightarrow> (js_error + region_details) \<times> store \<times> event list" where
  "region_call_hit e s postalRow =
     getEconomicRegionData e s (pg_column (ei_economic_region_name postalRow))
       (pg_column (ei_economic_region_url postalRow))"

text \<open>
  The call of line 141: the region name and locator are those just scraped, and the postal
  write of lines 127-138 was handed to the store connection before the region read.
\<close>

definition region_call_miss ::
  "env \<Rightarrow> store \<Rightarrow> string \<Rightarrow> html \<Rightarrow> (js_error + region_details) \<times> store \<times> event list" where
  "region_call_miss e s postalCode page =
     (let postalData = scrape_postal page (now_postal_stamp e)
      in getEconomicRegionData e
           (exec_postal_upsert e (postal_params postalCode postalData) s)
           (Str (EIEconomicRegionName postalData)) (EIEconomicRegionURL postalData))"

text \<open>Lines 100-104: a fresh row was found; the \<open>await\<close> stands outside any \<open>try\<close>.\<close>

definition hit_path :: "env \<Rightarrow> store \<Rightarrow> string \<Rightarrow> postal_row \<Rightarrow> outcome \<times> store \<times> event list" where
  "hit_path e s postalCode postalRow =
     (case region_call_hit e s postalRow of
        (Inl err, s', tr) \<Rightarrow> (UnhandledRejection err, s', Await (PostalSelect postalCode) # tr)
      | (Inr details, s', tr) \<Rightarrow>
          (Json200 (PostalRow postalRow details), s', Await (PostalSelect postalCode) # tr))"

text \<open>Lines 106-147: no row, or a stale one; everything from the fetch on is inside the \<open>try\<close>.\<close>

definition miss_path :: "env \<Rightarrow> store \<Rightarrow> string \<Rightarrow> outcome \<times> store \<times> event list" where
  "miss_path e s postalCode =
     (case http_get e (postal_page_url postalCode) of
        None \<Rightarrow>
          (Status500 ''Error scraping postal code data'', s,
           [Await (PostalSelect postalCode), Await (PostalPageGet (postal_page_url postalCode))])
      | Some page \<Rightarrow>
          (let postalData = scrape_postal page (now_postal_stamp e);
               pre = [Await (PostalSelect postalCode),
                      Await (PostalPageGet (postal_page_url postalCode)),
                      Fire (PostalUpsert (postal_params postalCode postalData))]
           in case region_call_miss e s postalCode page of
                (Inl err, s2, tr) \<Rightarrow> (Status500 ''Error scraping postal code data'', s2, pre @ tr)
              | (Inr details, s2, tr) \<Rightarrow> (Json200 (PostalData postalData details), s2, pre @ tr)))"

text \<open>
  The handler of \<open>GET /scrape\<close> for a request whose \<open>postalCode\<close> query parameter is a
  string. It returns how the request ends, the store once the queries of this request
  have run, and the operations in the order they were started.
\<close>

definition scrape_handler :: "env \<Rightarrow> store \<Rightarrow> string \<Rightarrow> outcome \<times> store \<times> event list" where
  "scrape_handler e s postalCode =
     (if postal_select_err e
      then (Status500 ''Database error'', s, [Await (PostalSelect postalCode)])
      else
        (case select_postal postalCode (postal_code_data s) of
           None \<Rightarrow> miss_path e s postalCode
         | Some postalRow \<Rightarrow>
             if \<not> isDataStale (now_postal_check e) (date_retrieved postalRow)
             then hit_path e s postalCode postalRow
             else miss_path e s postalCode))"

text \<open>
  The conditions of lines 100 and 164 as functions: the stored row when the read finds one
  that is not stale.
\<close>

definition postal_hit :: "env \<Rightarrow> store \<Rightarrow> string \<Rightarrow> postal_row option" where
  "postal_hit e s postalCode =
     (case select_postal postalCode (postal_code_data s) of
        None \<Rightarrow> None
      | Some postalRow \<Rightarrow>
          if \<not> isDataStale (now_postal_check e) (date_retrieved postalRow)
          then Some postalRow else None)"

definition region_hit :: "env \<Rightarrow> store \<Rightarrow> jsval \<Rightarrow> region_row option" where
  "region_hit e s regionName =
     (case select_region regionName (economic_region_data s) of
        None \<Rightarrow> None
      | Some econRow \<Rightarrow>
          if \<not> isDataStale (now_region_check e) (region_date_retrieved econRow)
          then Some econRow else None)"

section \<open>Response bodies\<close>

text \<open>
  What \<open>res.json\<close> serialises: a property that is \<open>undefined\<close> is left out, \<open>null\<close> is
  kept. A row read from the store has the column names of its table, in the order of
  \<open>CREATE TABLE\<close>; an object built by the code has the names the code gave it.
\<close>

datatype json = JNull | JString string | JDate int | JArray "json list"
  | JObject "(string \<times> json) list"

fun json_prop :: "string \<Rightarrow> jsval \<Rightarrow> (string \<times> json) list" where
  "json_prop k Undefined = []"
| "json_prop k Null = [(k, JNull)]"
| "json_prop k (Str v) = [(k, JString v)]"

definition econRow_props :: "region_row \<Rightarrow> (string \<times> json) list" where
  "econRow_props r =
     [(''economic_region_name'', JString (economic_region_name r))]
     @ json_prop ''province'' (pg_column (province r))
     @ json_prop ''economic_region_code'' (pg_column (economic_region_code r))
     @ json_prop ''unemployment_rate'' (pg_column (unemployment_rate r))
     @ json_prop ''insured_hours_required'' (pg_column (insured_hours_required r))
     @ json_prop ''min_weeks_payable'' (pg_column (min_weeks_payable r))
     @ json_prop ''max_weeks_payable'' (pg_column (max_weeks_payable r))
     @ json_prop ''best_weeks_required'' (pg_column (best_weeks_required r))
     @ [(''date_retrieved'', JDate (region_date_retrieved r))]"

definition econRegionData_props :: "tableData \<Rightarrow> int \<Rightarrow> (string \<times> json) list" where
  "econRegionData_props td stamp =
     json_prop ''Province'' (Province td)
     @ json_prop ''EconomicRegionCode'' (EconomicRegionCode td)
     @ json_prop ''EconomicRegionName'' (EconomicRegionName td)
     @ json_prop ''UnemploymentRate'' (UnemploymentRate td)
     @ json_prop ''InsuredHoursRequired'' (InsuredHoursRequired td)
     @ json_prop ''MinWeeksPayable'' (MinWeeksPayable td)
     @ json_prop ''MaxWeeksPayable'' (MaxWeeksPayable td)
     @ json_prop ''BestWeeksRequired'' (BestWeeksRequired td)
     @ [(''date_retrieved'', JDate stamp)]"

fun region_details_props :: "region_details \<Rightarrow> (string \<times> json) list" where
  "region_details_props (EconRow r) = econRow_props r"
| "region_details_props (EconRegionData td stamp) = econRegionData_props td stamp"

definition postalRow_props :: "postal_row \<Rightarrow> (string \<times> json) list" where
  "postalRow_props r =
     [(''postal_code'', JString (postal_code r))]
     @ json_prop ''census_subdivision_name'' (pg_column (census_subdivision_name r))
     @ json_prop ''common_name'' (pg_column (common_name r))
     @ json_prop ''census_division_name'' (pg_column (census_division_name r))
     @ json_prop ''ei_economic_region_name'' (pg_column (ei_economic_region_name r))
     @ json_prop ''ei_economic_region_url'' (pg_column (ei_economic_region_url r))
     @ [(''date_retrieved'', JDate (date_retrieved r))]"

definition postalData_props :: "postalData \<Rightarrow> (string \<times> json) list" where
  "postalData_props pd =
     [(''PostalCode'', JString (PostalCode pd)),
      (''CensusSubdivisionName'', JString (CensusSubdivisionName pd)),
      (''CommonName'', JString (CommonName pd)),
      (''CensusDivisionName'', JString (CensusDivisionName pd)),
      (''EIEconomicRegionName'', JString (EIEconomicRegionName pd))]
     @ json_prop ''EIEconomicRegionURL'' (EIEconomicRegionURL pd)
     @ [(''date_retrieved'', JDate (postal_stamp pd))]"

fun result_props :: "postal_result \<Rightarrow> (string \<times> json) list" where
  "result_props (PostalRow r d) =
     postalRow_props r @ [(''EconomicRegionDetails'', JObject (region_details_props d))]"
| "result_props (PostalData pd d) =
     postalData_props pd @ [(''EconomicRegionDetails'', JObject (region_details_props d))]"

text \<open>The body the caller receives; none when the request ends in an unhandled rejection.\<close>

fun response_body :: "outcome \<Rightarrow> json option" where
  "response_body (Json200 r) = Some (JObject [(''data'', JArray [JObject (result_props r)])])"
| "response_body (Status500 msg) = Some (JObject [(''error'', JString msg)])"
| "response_body (UnhandledRejection err) = None"

section \<open>A concrete lookup\<close>

text \<open>
  The pages of the remote source for the code \<open>K1A0A1\<close>: a postal page with one row, a
  region page with two rows, a region page with no row, and a postal page with no row.
\<close>

definition text_cell :: "string \<Rightarrow> cell" where
  "text_cell txt = \<lparr>cell_text = txt, cell_anchors = []\<rparr>"

definition ottawa_postal_page :: html where
  "ottawa_postal_page tid =
     (if tid = ''table'' then
        [[text_cell ''K1A0A1'', text_cell ''Ottawa'', text_cell ''Ottawa'', text_cell ''Ottawa'',
          \<lparr>cell_text = ''Ottawa'', cell_anchors = [(''Ottawa'', Some ''region/35.aspx'')]\<rparr>]]
      else [])"

definition ottawa_region_page :: html where
  "ottawa_region_page tid =
     (if tid = ''regions'' then
        [[text_cell ''QC'', text_cell ''2410'', text_cell ''Gatineau'', text_cell ''6.1'', text_cell ''700'', text_cell ''14'', text_cell ''36'',
          text_cell ''22''],
         [text_cell ''ON'', text_cell ''3520'', text_cell '' Ottawa '', text_cell ''5.6'', text_cell ''420'', text_cell ''14'', text_cell ''45'',
          text_cell ''14-22'']]
      else [])"

definition empty_page :: html where
  "empty_page tid = []"

definition ottawa_get :: "string \<Rightarrow> html option" where
  "ottawa_get url =
     (if url = ''https://srv129.services.gc.ca/ei_regions/eng/postalcode.aspx?_code=K1A0A1''
      then Some ottawa_postal_page
      else if url = ''https://srv129.services.gc.ca/ei_regions/eng/region/35.aspx''
      then Some ottawa_region_page
      else None)"

text \<open>The remote source answers the region locator with a page that has no row.\<close>

definition blank_region_get :: "string \<Rightarrow> html option" where
  "blank_region_get url =
     (if url = ''https://srv129.services.gc.ca/ei_regions/eng/postalcode.aspx?_code=K1A0A1''
      then Some ottawa_postal_page
      else if url = ''https://srv129.services.gc.ca/ei_regions/eng/region/35.aspx''
      then Some empty_page
      else None)"

text \<open>The remote source answers the postal locator with a page that has no row.\<close>

definition blank_postal_get :: "string \<Rightarrow> html option" where
  "blank_postal_get url =
     (if url = ''https://srv129.services.gc.ca/ei_regions/eng/postalcode.aspx?_code=K1A0A1''
      then Some empty_page
      else None)"

text \<open>All queries succeed; the clock reads 1000000, 1000001, 1000002, 1000003.\<close>

definition ottawa_env :: env where
  "ottawa_env =
     \<lparr>postal_select_err = False, region_select_err = False,
      postal_upsert_ok = True, region_upsert_ok = True,
      http_get = ottawa_get,
      now_postal_check = 1000000, now_postal_stamp = 1000001,
      now_region_check = 1000002, now_region_stamp = 1000003\<rparr>"

definition empty_store :: store where
  "empty_store = \<lparr>postal_code_data = [], economic_region_data = []\<rparr>"

text \<open>The store after the lookup of \<open>K1A0A1\<close> on the empty store.\<close>

definition ottawa_postal_row :: postal_row where
  "ottawa_postal_row =
     \<lparr>postal_code = ''K1A0A1'', census_subdivision_name = Some ''Ottawa'',
      common_name = Some ''Ottawa'', census_division_name = Some ''Ottawa'',
      ei_economic_region_name = Some ''Ottawa'',
      ei_economic_region_url = Some ''region/35.aspx'', date_retrieved = 1000001\<rparr>"

definition ottawa_region_row :: region_row where
  "ottawa_region_row =
     \<lparr>economic_region_name = ''Ottawa'', province = Some ''ON'',
      economic_region_code = Some ''3520'', unemployment_rate = Some ''5.6'',
      insured_hours_required = Some ''420'', min_weeks_payable = Some ''14'',
      max_weeks_payable = Some ''45'', best_weeks_required = Some ''14-22'',
      region_date_retrieved = 1000003\<rparr>"

definition ottawa_store :: store where
  "ottawa_store =
     \<lparr>postal_code_data = [ottawa_postal_row], economic_region_data = [ottawa_region_row]\<rparr>"

text \<open>The store when only the postal row is there.\<close>

definition ottawa_postal_only_store :: store where
  "ottawa_postal_only_store = \<lparr>postal_code_data = [ottawa_postal_row], economic_region_data = []\<rparr>"

text \<open>What the lookup of \<open>K1A0A1\<close> on the empty store builds and starts.\<close>

definition ottawa_postalData :: postalData where
  "ottawa_postalData =
     \<lparr>PostalCode = ''K1A0A1'', CensusSubdivisionName = ''Ottawa'', CommonName = ''Ottawa'',
      CensusDivisionName = ''Ottawa'', EIEconomicRegionName = ''Ottawa'',
      EIEconomicRegionURL = Str ''region/35.aspx'', postal_stamp = 1000001\<rparr>"

definition ottawa_tableData :: tableData where
  "ottawa_tableData =
     \<lparr>Province = Str ''ON'', EconomicRegionCode = Str ''3520'',
      EconomicRegionName = Str ''Ottawa'', UnemploymentRate = Str ''5.6'',
      InsuredHoursRequired = Str ''420'', MinWeeksPayable = Str ''14'',
      MaxWeeksPayable = Str ''45'', BestWeeksRequired = Str ''14-22''\<rparr>"

definition ottawa_miss_trace :: "event list" where
  "ottawa_miss_trace =
     [Await (PostalSelect ''K1A0A1''),
      Await (PostalPageGet
        ''https://srv129.services.gc.ca/ei_regions/eng/postalcode.aspx?_code=K1A0A1''),
      Fire (PostalUpsert ottawa_postal_row),
      Await (RegionSelect (Str ''Ottawa'')),
      Await (RegionPageGet ''https://srv129.services.gc.ca/ei_regions/eng/region/35.aspx''),
      Fire (RegionUpsert (Str ''Ottawa'') ottawa_tableData 1000003)]"

text \<open>Variations of the environment: what the remote source or the store does differently.\<close>

definition blank_region_env :: env where
  "blank_region_env = ottawa_env\<lparr>http_get := blank_region_get\<rparr>"

definition blank_postal_env :: env where
  "blank_postal_env = ottawa_env\<lparr>http_get := blank_postal_get\<rparr>"

definition offline_env :: env where
  "offline_env = ottawa_env\<lparr>http_get := (\<lambda>url. None)\<rparr>"

definition region_down_env :: env where
  "region_down_env = ottawa_env\<lparr>region_select_err := True\<rparr>"

text \<open>The row written from a postal page that has no row: empty texts and no locator.\<close>

definition blank_postal_row :: "string \<Rightarrow> int \<Rightarrow> postal_row" where
  "blank_postal_row postalCode stamp =
     \<lparr>postal_code = postalCode, census_subdivision_name = Some [], common_name = Some [],
      census_division_name = Some [], ei_economic_region_name = Some [],
      ei_economic_region_url = None, date_retrieved = stamp\<rparr>"

text \<open>
  A store that already holds the two keys of the example with older contents, beside a
  row of another postal code and of another region; and the same remote source at a time
  when those rows are more than 30 days old.
\<close>

definition toronto_postal_row :: postal_row where
  "toronto_postal_row =
     \<lparr>postal_code = ''M5V2T6'', census_subdivision_name = Some ''Toronto'',
      common_name = Some ''Toronto'', census_division_name = Some ''Toronto'',
      ei_economic_region_name = Some ''Toronto'',
      ei_economic_region_url = Some ''region/39.aspx'', date_retrieved = 2000000\<rparr>"

definition toronto_region_row :: region_row where
  "toronto_region_row =
     \<lparr>economic_region_name = ''Toronto'', province = Some ''ON'',
      economic_region_code = Some ''3535'', unemployment_rate = Some ''7.9'',
      insured_hours_required = Some ''630'', min_weeks_payable = Some ''17'',
      max_weeks_payable = Some ''40'', best_weeks_required = Some ''20'',
      region_date_retrieved = 2000000\<rparr>"

definition bytown_postal_row :: postal_row where
  "bytown_postal_row =
     \<lparr>postal_code = ''K1A0A1'', census_subdivision_name = Some ''Bytown'',
      common_name = None, census_division_name = Some ''Carleton'',
      ei_economic_region_name = Some ''Bytown'',
      ei_economic_region_url = Some ''region/old.aspx'', date_retrieved = 1000\<rparr>"

definition bytown_region_row :: region_row where
  "bytown_region_row =
     \<lparr>economic_region_name = ''Ottawa'', province = Some ''Ontario'',
      economic_region_code = None, unemployment_rate = Some ''9.9'',
      insured_hours_required = Some ''700'', min_weeks_payable = Some ''10'',
      max_weeks_payable = Some ''30'', best_weeks_required = Some ''12'',
      region_date_retrieved = 1000\<rparr>"

definition old_store :: store where
  "old_store =
     \<lparr>postal_code_data = [toronto_postal_row, bytown_postal_row],
      economic_region_data = [toronto_region_row, bytown_region_row]\<rparr>"

definition later_env :: env where
  "later_env =
     ottawa_env\<lparr>now_postal_check := 3000000000, now_postal_stamp := 3000000001,
       now_region_check := 3000000002, now_region_stamp := 3000000003\<rparr>"

text \<open>What the lookup of \<open>K1A0A1\<close> on that store writes, starts and leaves.\<close>

definition refreshed_postal_row :: postal_row where
  "refreshed_postal_row =
     \<lparr>postal_code = ''K1A0A1'', census_subdivision_name = Some ''Ottawa'',
      common_name = Some ''Ottawa'', census_division_name = Some ''Ottawa'',
      ei_economic_region_name = Some ''Ottawa'',
      ei_economic_region_url = Some ''region/35.aspx'', date_retrieved = 3000000001\<rparr>"

definition refreshed_region_row :: region_row where
  "refreshed_region_row =
     \<lparr>economic_region_name = ''Ottawa'', province = Some ''ON'',
      economic_region_code = Some ''3520'', unemployment_rate = Some ''5.6'',
      insured_hours_required = Some ''420'', min_weeks_payable = Some ''14'',
      max_weeks_payable = Some ''45'', best_weeks_required = Some ''14-22'',
      region_date_retrieved = 3000000003\<rparr>"

definition refresh_trace :: "event list" where
  "refresh_trace =
     [Await (PostalSelect ''K1A0A1''),
      Await (PostalPageGet
        ''https://srv129.services.gc.ca/ei_regions/eng/postalcode.aspx?_code=K1A0A1''),
      Fire (PostalUpsert refreshed_postal_row),
      Await (RegionSelect (Str ''Ottawa'')),
      Await (RegionPageGet ''https://srv129.services.gc.ca/ei_regions/eng/region/35.aspx''),
      Fire (RegionUpsert (Str ''Ottawa'') ottawa_tableData 3000000003)]"

definition refreshed_store :: store where
  "refreshed_store =
     \<lparr>postal_code_data = [toronto_postal_row, refreshed_postal_row],
      economic_region_data = [toronto_region_row, refreshed_region_row]\<rparr>"

section \<open>Freshness policy\<close>

lemma THIRTY_DAYS_IN_MS_value: "THIRTY_DAYS_IN_MS = 2592000000"
  by (simp add: THIRTY_DAYS_IN_MS_def)

text \<open>
  C5. For every retrieval timestamp \<open>T\<close> and clock reading \<open>now\<close>, \<open>isDataStale\<close> is true
  exactly when \<open>now - T\<close> exceeds 30 days (2592000000 ms). At 29 days 23 hours 59 minutes
  59 seconds of age it is false, at 30 days and 1 second it is true (and at exactly 30
  days it is still false).
\<close>

theorem isDataStale_thirty_days:
  "isDataStale now T = (now - T > 30 * (24 * 60 * 60 * 1000))
   \<and> isDataStale (T + (((29 * 24 + 23) * 60 + 59) * 60 + 59) * 1000) T = False
   \<and> isDataStale (T + ((30 * 24 * 60 + 0) * 60 + 1) * 1000) T = True
   \<and> isDataStale (T + 30 * (24 * 60 * 60 * 1000)) T = False"
  by (simp add: isDataStale_def THIRTY_DAYS_IN_MS_def)

section \<open>Properties of the lookups\<close>

subsection \<open>Tables\<close>

lemma select_postal_upsert_postal_same:
  "select_postal (postal_code new) (upsert_postal new rows) = Some new"
  by (induction rows) (auto simp: select_postal_def)

lemma select_postal_upsert_postal_other:
  "k \<noteq> postal_code new \<Longrightarrow> select_postal k (upsert_postal new rows) = select_postal k rows"
  by (induction rows) (auto simp: select_postal_def)

lemma keys_upsert_postal:
  "set (map postal_code (upsert_postal new rows)) = insert (postal_code new) (set (map postal_code rows))"
  by (induction rows) auto

lemma distinct_upsert_postal:
  "distinct (map postal_code rows) \<Longrightarrow> distinct (map postal_code (upsert_postal new rows))"
proof (induction rows)
  case Nil
  then show ?case by simp
next
  case (Cons r rs)
  then show ?case
    using keys_upsert_postal [of new rs] by auto
qed

lemma set_upsert_postal:
  "r \<in> set (upsert_postal new rows) \<Longrightarrow> r \<in> set rows \<or> r = new"
  by (induction rows) (auto split: if_splits)

lemma find_region_upsert_region_same:
  "find (\<lambda>r. economic_region_name r = economic_region_name new) (upsert_region new rows) = Some new"
  by (induction rows) auto

lemma find_region_upsert_region_other:
  "k \<noteq> economic_region_name new \<Longrightarrow>
   find (\<lambda>r. economic_region_name r = k) (upsert_region new rows) =
   find (\<lambda>r. economic_region_name r = k) rows"
  by (induction rows) auto

lemma keys_upsert_region:
  "set (map economic_region_name (upsert_region new rows)) =
   insert (economic_region_name new) (set (map economic_region_name rows))"
  by (induction rows) auto

lemma distinct_upsert_region:
  "distinct (map economic_region_name rows) \<Longrightarrow>
   distinct (map economic_region_name (upsert_region new rows))"
proof (induction rows)
  case Nil
  then show ?case by simp
next
  case (Cons r rs)
  then show ?case
    using keys_upsert_region [of new rs] by auto
qed

lemma set_upsert_region:
  "r \<in> set (upsert_region new rows) \<Longrightarrow> r \<in> set rows \<or> r = new"
  by (induction rows) (auto split: if_splits)

subsection \<open>Case analysis of the two lookups\<close>

lemma scrape_handler_cases:
  "scrape_handler e s pc =
     (if postal_select_err e then (Status500 ''Database error'', s, [Await (PostalSelect pc)])
      else case postal_hit e s pc of
             None \<Rightarrow> miss_path e s pc
           | Some row \<Rightarrow> hit_path e s pc row)"
  by (simp add: scrape_handler_def postal_hit_def split: option.splits)

lemma getEconomicRegionData_cases:
  "getEconomicRegionData e s n u =
     (if region_select_err e then (Inl DatabaseError, s, [Await (RegionSelect n)])
      else case region_hit e s n of
             None \<Rightarrow> region_miss e s n u
           | Some r \<Rightarrow> (Inr (EconRow r), s, [Await (RegionSelect n)]))"
  by (simp add: getEconomicRegionData_def region_hit_def split: option.splits)

lemma region_miss_cases:
  "region_miss e s n u =
     (case http_get e (region_page_url u) of
        None \<Rightarrow> (Inl RequestError, s, [Await (RegionSelect n), Await (RegionPageGet (region_page_url u))])
      | Some page \<Rightarrow>
          (Inr (EconRegionData (scrape_rows (page ''regions'')) (now_region_stamp e)),
           exec_region_upsert e n (scrape_rows (page ''regions'')) (now_region_stamp e) s,
           [Await (RegionSelect n), Await (RegionPageGet (region_page_url u)),
            Fire (RegionUpsert n (scrape_rows (page ''regions'')) (now_region_stamp e))]))"
  by (simp add: region_miss_def scrapeEconomicRegion_def split: option.splits)

lemma exec_region_upsert_postal_table:
  "postal_code_data (exec_region_upsert e n t st s) = postal_code_data s"
  by (simp add: exec_region_upsert_def split: option.splits)

lemma getEconomicRegionData_postal_table:
  "postal_code_data (fst (snd (getEconomicRegionData e s n u))) = postal_code_data s"
  by (simp add: getEconomicRegionData_cases region_miss_cases exec_region_upsert_postal_table
      split: option.splits)


lemma getEconomicRegionData_trace:
  "ev \<in> set (snd (snd (getEconomicRegionData e s n u))) \<Longrightarrow>
   ev = Await (RegionSelect n) \<or> ev = Await (RegionPageGet (region_page_url u))
   \<or> (\<exists>page. http_get e (region_page_url u) = Some page \<and>
        ev = Fire (RegionUpsert n (scrape_rows (page ''regions'')) (now_region_stamp e)))"
  by (auto simp: getEconomicRegionData_cases region_miss_cases split: option.splits if_splits)

lemma getEconomicRegionData_trace_hd:
  "hd (snd (snd (getEconomicRegionData e s n u))) = Await (RegionSelect n)"
  by (auto simp: getEconomicRegionData_cases region_miss_cases split: option.splits)

lemma hit_path_trace:
  "snd (snd (hit_path e s pc row)) = Await (PostalSelect pc) # snd (snd (region_call_hit e s row))"
  by (simp add: hit_path_def split: prod.splits sum.splits)

lemma hit_path_store:
  "fst (snd (hit_path e s pc row)) = fst (snd (region_call_hit e s row))"
  by (simp add: hit_path_def split: prod.splits sum.splits)

lemma hit_path_outcome:
  "fst (hit_path e s pc row) =
     (case fst (region_call_hit e s row) of
        Inl err \<Rightarrow> UnhandledRejection err
      | Inr d \<Rightarrow> Json200 (PostalRow row d))"
  by (simp add: hit_path_def split: prod.splits sum.splits)

lemma miss_path_failed_fetch:
  "http_get e (postal_page_url pc) = None \<Longrightarrow>
   miss_path e s pc =
     (Status500 ''Error scraping postal code data'', s,
      [Await (PostalSelect pc), Await (PostalPageGet (postal_page_url pc))])"
  by (simp add: miss_path_def)

lemma miss_path_trace:
  "http_get e (postal_page_url pc) = Some page \<Longrightarrow>
   snd (snd (miss_path e s pc)) =
     [Await (PostalSelect pc), Await (PostalPageGet (postal_page_url pc)),
      Fire (PostalUpsert (postal_params pc (scrape_postal page (now_postal_stamp e))))]
     @ snd (snd (region_call_miss e s pc page))"
  by (simp add: miss_path_def Let_def split: prod.splits sum.splits)

lemma miss_path_store:
  "http_get e (postal_page_url pc) = Some page \<Longrightarrow>
   fst (snd (miss_path e s pc)) = fst (snd (region_call_miss e s pc page))"
  by (simp add: miss_path_def Let_def split: prod.splits sum.splits)

lemma miss_path_outcome:
  "http_get e (postal_page_url pc) = Some page \<Longrightarrow>
   fst (miss_path e s pc) =
     (case fst (region_call_miss e s pc page) of
        Inl err \<Rightarrow> Status500 ''Error scraping postal code data''
      | Inr d \<Rightarrow> Json200 (PostalData (scrape_postal page (now_postal_stamp e)) d))"
  by (simp add: miss_path_def Let_def split: prod.splits sum.splits)

lemma region_call_miss_postal_table:
  "postal_code_data (fst (snd (region_call_miss e s pc page))) =
   postal_code_data (exec_postal_upsert e (postal_params pc (scrape_postal page (now_postal_stamp e))) s)"
  by (simp add: region_call_miss_def Let_def getEconomicRegionData_postal_table)

subsection \<open>Region writes\<close>

lemma exec_region_upsert_cases:
  "exec_region_upsert e n t st s = s \<or>
   (\<exists>new. region_params n t st = Some new \<and> region_upsert_ok e \<and>
      exec_region_upsert e n t st s =
        s\<lparr>economic_region_data := upsert_region new (economic_region_data s)\<rparr>)"
  by (simp add: exec_region_upsert_def split: option.splits)

lemma region_params_key:
  "region_params n t st = Some new \<Longrightarrow>
   pg_param n = Some (economic_region_name new) \<and> region_date_retrieved new = st"
  by (auto simp: region_params_def split: option.splits)

lemma exec_region_upsert_distinct:
  "distinct (map economic_region_name (economic_region_data s)) \<Longrightarrow>
   distinct (map economic_region_name (economic_region_data (exec_region_upsert e n t st s)))"
  using exec_region_upsert_cases [of e n t st s]
  by (auto simp: distinct_upsert_region)

lemma exec_region_upsert_select:
  assumes "region_upsert_ok e" and "region_params n t st = Some new"
  shows "select_region n (economic_region_data (exec_region_upsert e n t st s)) = Some new"
  using assms region_params_key [OF assms(2)]
  by (simp add: exec_region_upsert_def select_region_def find_region_upsert_region_same)

lemma exec_region_upsert_rows:
  "r \<in> set (economic_region_data (exec_region_upsert e n t st s)) \<Longrightarrow>
   r \<in> set (economic_region_data s) \<or> region_params n t st = Some r"
  using exec_region_upsert_cases [of e n t st s]
  by (auto dest: set_upsert_region)

lemma getEconomicRegionData_distinct:
  "distinct (map economic_region_name (economic_region_data s)) \<Longrightarrow>
   distinct (map economic_region_name
     (economic_region_data (fst (snd (getEconomicRegionData e s n u)))))"
  by (simp add: getEconomicRegionData_cases region_miss_cases exec_region_upsert_distinct
      split: option.splits)

lemma getEconomicRegionData_write:
  assumes "Fire (RegionUpsert n' t st) \<in> set (snd (snd (getEconomicRegionData e s n u)))"
    and "region_upsert_ok e" and "region_params n' t st = Some new"
  shows "select_region n' (economic_region_data (fst (snd (getEconomicRegionData e s n u)))) = Some new
         \<and> region_date_retrieved new = now_region_stamp e"
  using assms region_params_key [OF assms(3)]
  by (auto simp: getEconomicRegionData_cases region_miss_cases exec_region_upsert_select
      split: option.splits if_splits)

lemma getEconomicRegionData_rows:
  assumes "r \<in> set (economic_region_data (fst (snd (getEconomicRegionData e s n u))))"
  shows "r \<in> set (economic_region_data s) \<or>
         (\<exists>n' t st. Fire (RegionUpsert n' t st) \<in> set (snd (snd (getEconomicRegionData e s n u)))
            \<and> region_params n' t st = Some r)"
  using assms
  by (auto simp: getEconomicRegionData_cases region_miss_cases
      split: option.splits if_splits dest!: exec_region_upsert_rows)

lemma getEconomicRegionData_no_postal_events:
  "Fire (PostalUpsert new) \<notin> set (snd (snd (getEconomicRegionData e s n u)))"
  "Await (PostalUpsert new) \<notin> set (snd (snd (getEconomicRegionData e s n u)))"
  "Fire (PostalPageGet v) \<notin> set (snd (snd (getEconomicRegionData e s n u)))"
  "Await (PostalPageGet v) \<notin> set (snd (snd (getEconomicRegionData e s n u)))"
  by (auto simp: getEconomicRegionData_cases region_miss_cases split: option.splits)

subsection \<open>Region extraction\<close>

lemma scrape_row_overwrites: "scrape_row t cells = scrape_row t' cells"
  by (simp add: scrape_row_def)

lemma foldl_scrape_row_last:
  "rows \<noteq> [] \<Longrightarrow> foldl scrape_row t rows = scrape_row t' (last rows)"
proof (induction rows arbitrary: t)
  case Nil
  then show ?case by simp
next
  case (Cons r rs)
  show ?case
  proof (cases rs)
    case Nil
    then show ?thesis by (simp add: scrape_row_overwrites [of t r t'])
  next
    case (Cons a list)
    with Cons.IH [of "scrape_row t r"] show ?thesis by simp
  qed
qed

text \<open>
  C7. When the fetched region page has at least one data row, the extraction walks the
  rows in order (a left fold of \<open>scrape_row\<close> over them) and returns the eight fields of
  the last row: whatever earlier rows wrote is overwritten.
\<close>

theorem scrapeEconomicRegion_last_row_wins:
  assumes "http_get e (region_page_url relativeURL) = Some page"
    and "page ''regions'' \<noteq> []"
  shows "scrapeEconomicRegion e relativeURL =
           Inr (foldl scrape_row empty_tableData (page ''regions''))
         \<and> foldl scrape_row empty_tableData (page ''regions'') =
           \<lparr>Province = Str (text_at (last (page ''regions'')) 0),
            EconomicRegionCode = Str (text_at (last (page ''regions'')) 1),
            EconomicRegionName = Str (text_at (last (page ''regions'')) 2),
            UnemploymentRate = Str (text_at (last (page ''regions'')) 3),
            InsuredHoursRequired = Str (text_at (last (page ''regions'')) 4),
            MinWeeksPayable = Str (text_at (last (page ''regions'')) 5),
            MaxWeeksPayable = Str (text_at (last (page ''regions'')) 6),
            BestWeeksRequired = Str (text_at (last (page ''regions'')) 7)\<rparr>"
  using assms foldl_scrape_row_last [of "page ''regions''" empty_tableData empty_tableData]
  by (simp add: scrapeEconomicRegion_def scrape_rows_def scrape_row_def empty_tableData_def)

lemmas page_eval =
  BASE_URL_def POSTAL_CODE_ENDPOINT_def postal_page_url_def region_page_url_def
  ottawa_get_def ottawa_postal_page_def ottawa_region_page_def text_cell_def
  first_row_def text_at_def anchor_text_at_def anchor_href_at_def trim_def is_ws_def

text \<open>
  The region page of the example has two rows; the fields of the second are returned,
  trimmed.
\<close>

theorem scrapeEconomicRegion_last_row_wins_witness:
  "http_get ottawa_env (region_page_url (Str ''region/35.aspx'')) = Some ottawa_region_page
   \<and> ottawa_region_page ''regions'' \<noteq> []
   \<and> length (ottawa_region_page ''regions'') = 2
   \<and> scrapeEconomicRegion ottawa_env (Str ''region/35.aspx'') =
       Inr \<lparr>Province = Str ''ON'', EconomicRegionCode = Str ''3520'',
            EconomicRegionName = Str ''Ottawa'', UnemploymentRate = Str ''5.6'',
            InsuredHoursRequired = Str ''420'', MinWeeksPayable = Str ''14'',
            MaxWeeksPayable = Str ''45'', BestWeeksRequired = Str ''14-22''\<rparr>"
proof -
  have get: "http_get ottawa_env (region_page_url (Str ''region/35.aspx'')) = Some ottawa_region_page"
    by (simp add: ottawa_env_def page_eval)
  have rows: "ottawa_region_page ''regions'' \<noteq> []"
    by (simp add: ottawa_region_page_def)
  have len: "length (ottawa_region_page ''regions'') = 2"
    by (simp add: ottawa_region_page_def)
  from scrapeEconomicRegion_last_row_wins [OF get rows] get rows len
  show ?thesis
    by (simp add: page_eval)
qed

subsection \<open>Cache hit\<close>

text \<open>
  C2. When the store holds a row for the postal code whose retrieval timestamp is within 30
  days of the clock, the handler starts no fetch of the postal page and no postal write
  and leaves the postal table as it was; when the reads succeed, the response carries the
  stored row. The region page is still fetched when the region read finds no fresh row.
\<close>

theorem cache_hit_skips_postal_fetch:
  assumes "select_postal pc (postal_code_data s) = Some row"
    and "now_postal_check e - date_retrieved row \<le> THIRTY_DAYS_IN_MS"
  shows "(\<forall>u. Await (PostalPageGet u) \<notin> set (snd (snd (scrape_handler e s pc)))
              \<and> Fire (PostalPageGet u) \<notin> set (snd (snd (scrape_handler e s pc))))
       \<and> (\<forall>new. Await (PostalUpsert new) \<notin> set (snd (snd (scrape_handler e s pc)))
              \<and> Fire (PostalUpsert new) \<notin> set (snd (snd (scrape_handler e s pc))))
       \<and> postal_code_data (fst (snd (scrape_handler e s pc))) = postal_code_data s
       \<and> (\<forall>d. \<not> postal_select_err e \<and> fst (region_call_hit e s row) = Inr d \<longrightarrow>
               fst (scrape_handler e s pc) = Json200 (PostalRow row d))
       \<and> (\<not> postal_select_err e \<and> \<not> region_select_err e
           \<and> region_hit e s (pg_column (ei_economic_region_name row)) = None \<longrightarrow>
             Await (RegionPageGet (region_page_url (pg_column (ei_economic_region_url row))))
               \<in> set (snd (snd (scrape_handler e s pc))))"
proof (cases "postal_select_err e")
  case True
  then show ?thesis by (simp add: scrape_handler_cases)
next
  case False
  from assms have hit: "postal_hit e s pc = Some row"
    by (simp add: postal_hit_def isDataStale_def)
  with False have run: "scrape_handler e s pc = hit_path e s pc row"
    by (simp add: scrape_handler_cases)
  have tr: "snd (snd (scrape_handler e s pc)) =
      Await (PostalSelect pc) # snd (snd (region_call_hit e s row))"
    by (simp add: run hit_path_trace)
  have a: "\<forall>u. Await (PostalPageGet u) \<notin> set (snd (snd (scrape_handler e s pc)))
              \<and> Fire (PostalPageGet u) \<notin> set (snd (snd (scrape_handler e s pc)))"
    by (simp add: tr region_call_hit_def getEconomicRegionData_no_postal_events)
  have b: "\<forall>new. Await (PostalUpsert new) \<notin> set (snd (snd (scrape_handler e s pc)))
              \<and> Fire (PostalUpsert new) \<notin> set (snd (snd (scrape_handler e s pc)))"
    by (simp add: tr region_call_hit_def getEconomicRegionData_no_postal_events)
  have c: "postal_code_data (fst (snd (scrape_handler e s pc))) = postal_code_data s"
    by (simp add: run hit_path_store region_call_hit_def getEconomicRegionData_postal_table)
  have d: "\<forall>d. \<not> postal_select_err e \<and> fst (region_call_hit e s row) = Inr d \<longrightarrow>
               fst (scrape_handler e s pc) = Json200 (PostalRow row d)"
    by (simp add: run hit_path_outcome)
  have f: "\<not> postal_select_err e \<and> \<not> region_select_err e
           \<and> region_hit e s (pg_column (ei_economic_region_name row)) = None \<longrightarrow>
             Await (RegionPageGet (region_page_url (pg_column (ei_economic_region_url row))))
               \<in> set (snd (snd (scrape_handler e s pc)))"
    by (auto simp: tr region_call_hit_def getEconomicRegionData_cases region_miss_cases
        split: option.splits)
  from a b c d f show ?thesis by blast
qed

subsection \<open>Postal writes\<close>

lemma postal_params_key:
  "postal_code (postal_params pc pd) = pc"
  "date_retrieved (postal_params pc pd) = postal_stamp pd"
  by (simp_all add: postal_params_def)

lemma scrape_postal_stamp: "postal_stamp (scrape_postal page st) = st"
  by (simp add: scrape_postal_def Let_def)

lemma exec_postal_upsert_region_table:
  "economic_region_data (exec_postal_upsert e new s) = economic_region_data s"
  by (simp add: exec_postal_upsert_def)

lemma exec_postal_upsert_distinct:
  "distinct (map postal_code (postal_code_data s)) \<Longrightarrow>
   distinct (map postal_code (postal_code_data (exec_postal_upsert e new s)))"
  by (simp add: exec_postal_upsert_def distinct_upsert_postal)

lemma exec_postal_upsert_select:
  "postal_upsert_ok e \<Longrightarrow>
   select_postal (postal_code new) (postal_code_data (exec_postal_upsert e new s)) = Some new"
  by (simp add: exec_postal_upsert_def select_postal_upsert_postal_same)

lemma exec_postal_upsert_other:
  "k \<noteq> postal_code new \<Longrightarrow>
   select_postal k (postal_code_data (exec_postal_upsert e new s)) =
   select_postal k (postal_code_data s)"
  by (simp add: exec_postal_upsert_def select_postal_upsert_postal_other)

lemma exec_postal_upsert_rows:
  "r \<in> set (postal_code_data (exec_postal_upsert e new s)) \<Longrightarrow>
   r \<in> set (postal_code_data s) \<or> r = new"
  by (auto simp: exec_postal_upsert_def dest: set_upsert_postal split: if_splits)

subsection \<open>The four ways a request runs\<close>

lemma scrape_handler_runs:
  assumes "scrape_handler e s pc = (out, s', tr)"
  obtains
    (read_error) "postal_select_err e" "s' = s" "tr = [Await (PostalSelect pc)]"
  | (hit) row where "\<not> postal_select_err e" "postal_hit e s pc = Some row"
      "s' = fst (snd (region_call_hit e s row))"
      "tr = Await (PostalSelect pc) # snd (snd (region_call_hit e s row))"
  | (fetch_error) "\<not> postal_select_err e" "postal_hit e s pc = None"
      "http_get e (postal_page_url pc) = None" "s' = s"
      "tr = [Await (PostalSelect pc), Await (PostalPageGet (postal_page_url pc))]"
  | (miss) page where "\<not> postal_select_err e" "postal_hit e s pc = None"
      "http_get e (postal_page_url pc) = Some page"
      "s' = fst (snd (region_call_miss e s pc page))"
      "tr = [Await (PostalSelect pc), Await (PostalPageGet (postal_page_url pc)),
             Fire (PostalUpsert (postal_params pc (scrape_postal page (now_postal_stamp e))))]
            @ snd (snd (region_call_miss e s pc page))"
proof (cases "postal_select_err e")
  case True
  with assms have "s' = s" "tr = [Await (PostalSelect pc)]"
    by (simp_all add: scrape_handler_cases)
  with True show ?thesis by (rule read_error)
next
  case no_err: False
  show ?thesis
  proof (cases "postal_hit e s pc")
    case (Some row)
    with no_err assms have run: "hit_path e s pc row = (out, s', tr)"
      by (simp add: scrape_handler_cases)
    have "s' = fst (snd (region_call_hit e s row))"
      using hit_path_store [of e s pc row] by (simp add: run)
    moreover have "tr = Await (PostalSelect pc) # snd (snd (region_call_hit e s row))"
      using hit_path_trace [of e s pc row] by (simp add: run)
    ultimately show ?thesis using no_err Some by (rule hit [rotated 2])
  next
    case None
    with no_err assms have run: "miss_path e s pc = (out, s', tr)"
      by (simp add: scrape_handler_cases)
    show ?thesis
    proof (cases "http_get e (postal_page_url pc)")
      case no_page: None
      with run have "s' = s"
          "tr = [Await (PostalSelect pc), Await (PostalPageGet (postal_page_url pc))]"
        by (simp_all add: miss_path_failed_fetch)
      with no_err None no_page show ?thesis by (rule fetch_error)
    next
      case (Some page)
      have "s' = fst (snd (region_call_miss e s pc page))"
        using miss_path_store [OF Some, of s] by (simp add: run)
      moreover have "tr = [Await (PostalSelect pc), Await (PostalPageGet (postal_page_url pc)),
             Fire (PostalUpsert (postal_params pc (scrape_postal page (now_postal_stamp e))))]
            @ snd (snd (region_call_miss e s pc page))"
        using miss_path_trace [OF Some, of s] by (simp add: run)
      ultimately show ?thesis using no_err None Some by (rule miss [rotated 3])
    qed
  qed
qed

subsection \<open>Store invariants\<close>

lemma region_call_miss_region_distinct:
  "distinct (map economic_region_name (economic_region_data s)) \<Longrightarrow>
   distinct (map economic_region_name
     (economic_region_data (fst (snd (region_call_miss e s pc page)))))"
  by (simp add: region_call_miss_def Let_def getEconomicRegionData_distinct
      exec_postal_upsert_region_table)

lemma region_call_miss_rows:
  assumes "r \<in> set (economic_region_data (fst (snd (region_call_miss e s pc page))))"
  shows "r \<in> set (economic_region_data s) \<or>
         (\<exists>n t st. Fire (RegionUpsert n t st) \<in> set (snd (snd (region_call_miss e s pc page)))
            \<and> region_params n t st = Some r)"
  using assms getEconomicRegionData_rows
    [of r e "exec_postal_upsert e (postal_params pc (scrape_postal page (now_postal_stamp e))) s"]
  by (simp add: region_call_miss_def Let_def exec_postal_upsert_region_table)

lemma region_call_miss_write:
  assumes "Fire (RegionUpsert n t st) \<in> set (snd (snd (region_call_miss e s pc page)))"
    and "region_upsert_ok e" and "region_params n t st = Some new"
  shows "select_region n (economic_region_data (fst (snd (region_call_miss e s pc page)))) = Some new
         \<and> region_date_retrieved new = now_region_stamp e"
  using assms by (simp add: region_call_miss_def Let_def getEconomicRegionData_write)

lemma region_call_miss_no_postal_events:
  "Fire (PostalUpsert new) \<notin> set (snd (snd (region_call_miss e s pc page)))"
  "Await (PostalUpsert new) \<notin> set (snd (snd (region_call_miss e s pc page)))"
  "Await (PostalPageGet v) \<notin> set (snd (snd (region_call_miss e s pc page)))"
  by (simp_all add: region_call_miss_def Let_def getEconomicRegionData_no_postal_events)

lemma exec_region_upsert_other:
  assumes "pg_param n \<noteq> Some k"
  shows "select_region (Str k) (economic_region_data (exec_region_upsert e n t st s)) =
         select_region (Str k) (economic_region_data s)"
proof -
  from exec_region_upsert_cases [of e n t st s] show ?thesis
  proof
    assume "exec_region_upsert e n t st s = s"
    then show ?thesis by simp
  next
    assume "\<exists>new. region_params n t st = Some new \<and> region_upsert_ok e \<and>
      exec_region_upsert e n t st s =
        s\<lparr>economic_region_data := upsert_region new (economic_region_data s)\<rparr>"
    then obtain new where params: "region_params n t st = Some new"
      and eq: "exec_region_upsert e n t st s =
        s\<lparr>economic_region_data := upsert_region new (economic_region_data s)\<rparr>"
      by blast
    from region_params_key [OF params] assms have "k \<noteq> economic_region_name new"
      by auto
    then show ?thesis
      by (simp add: eq select_region_def find_region_upsert_region_other)
  qed
qed

lemma exec_region_upsert_keys:
  "set (map economic_region_name (economic_region_data s))
   \<subseteq> set (map economic_region_name (economic_region_data (exec_region_upsert e n t st s)))"
  using exec_region_upsert_cases [of e n t st s] keys_upsert_region
  by auto

lemma exec_region_upsert_unchanged:
  "economic_region_data (exec_region_upsert e n t st s) = economic_region_data s
   \<or> region_upsert_ok e"
  using exec_region_upsert_cases [of e n t st s] by auto

lemma getEconomicRegionData_other:
  assumes "\<forall>n' t st. Fire (RegionUpsert n' t st) \<in> set (snd (snd (getEconomicRegionData e s n u)))
             \<longrightarrow> pg_param n' \<noteq> Some k"
  shows "select_region (Str k) (economic_region_data (fst (snd (getEconomicRegionData e s n u)))) =
         select_region (Str k) (economic_region_data s)"
proof (cases "\<exists>t st. Fire (RegionUpsert n t st) \<in> set (snd (snd (getEconomicRegionData e s n u)))")
  case True
  with assms have "pg_param n \<noteq> Some k" by blast
  then show ?thesis
    by (simp add: getEconomicRegionData_cases region_miss_cases exec_region_upsert_other
        split: option.splits)
next
  case False
  then show ?thesis
    by (auto simp: getEconomicRegionData_cases region_miss_cases split: option.splits if_splits)
qed

lemma getEconomicRegionData_keys:
  "set (map economic_region_name (economic_region_data s))
   \<subseteq> set (map economic_region_name
         (economic_region_data (fst (snd (getEconomicRegionData e s n u)))))"
  using exec_region_upsert_keys
  by (simp add: getEconomicRegionData_cases region_miss_cases split: option.splits)

lemma getEconomicRegionData_unchanged:
  "economic_region_data (fst (snd (getEconomicRegionData e s n u))) = economic_region_data s
   \<or> (region_upsert_ok e
       \<and> (\<exists>n' t st. Fire (RegionUpsert n' t st)
             \<in> set (snd (snd (getEconomicRegionData e s n u)))))"
proof (cases "region_upsert_ok e")
  case True
  then show ?thesis
    by (auto simp: getEconomicRegionData_cases region_miss_cases split: option.splits)
next
  case False
  with exec_region_upsert_unchanged [of e] show ?thesis
    by (simp add: getEconomicRegionData_cases region_miss_cases split: option.splits)
qed

lemma exec_postal_upsert_keys:
  "set (map postal_code (postal_code_data s))
   \<subseteq> set (map postal_code (postal_code_data (exec_postal_upsert e new s)))"
  using keys_upsert_postal [of new "postal_code_data s"]
  by (auto simp: exec_postal_upsert_def)

lemma region_call_miss_other:
  assumes "\<forall>n t st. Fire (RegionUpsert n t st) \<in> set (snd (snd (region_call_miss e s pc page)))
             \<longrightarrow> pg_param n \<noteq> Some k"
  shows "select_region (Str k) (economic_region_data (fst (snd (region_call_miss e s pc page)))) =
         select_region (Str k) (economic_region_data s)"
  using assms getEconomicRegionData_other
    [of e "exec_postal_upsert e (postal_params pc (scrape_postal page (now_postal_stamp e))) s"
      "Str (EIEconomicRegionName (scrape_postal page (now_postal_stamp e)))"
      "EIEconomicRegionURL (scrape_postal page (now_postal_stamp e))" k]
  by (simp add: region_call_miss_def Let_def exec_postal_upsert_region_table)

lemma region_call_miss_keys:
  "set (map economic_region_name (economic_region_data s))
   \<subseteq> set (map economic_region_name
         (economic_region_data (fst (snd (region_call_miss e s pc page)))))"
  using getEconomicRegionData_keys
    [of "exec_postal_upsert e (postal_params pc (scrape_postal page (now_postal_stamp e))) s" e]
  by (simp add: region_call_miss_def Let_def exec_postal_upsert_region_table)

lemma region_call_miss_unchanged:
  "economic_region_data (fst (snd (region_call_miss e s pc page))) = economic_region_data s
   \<or> (region_upsert_ok e
       \<and> (\<exists>n t st. Fire (RegionUpsert n t st)
             \<in> set (snd (snd (region_call_miss e s pc page)))))"
  using getEconomicRegionData_unchanged
    [of e "exec_postal_upsert e (postal_params pc (scrape_postal page (now_postal_stamp e))) s"]
  by (simp add: region_call_miss_def Let_def exec_postal_upsert_region_table)

text \<open>
  C8. From a store with at most one row per postal code and per region name, a request
  leaves a store with the same property. A write that succeeds leaves, under its key,
  exactly the row of its parameters: every column other than the key is the new value,
  the retrieval timestamp is the clock reading taken for this write. Every row of the
  store after the request is a row of the store before it or the row of a write of this
  request. Rows under other postal codes and under other region names read as before, no
  key of either table disappears, and a table changes only through a write of this
  request that succeeds.
\<close>

theorem upserts_keep_store_invariants:
  assumes dp: "distinct (map postal_code (postal_code_data s))"
    and dr: "distinct (map economic_region_name (economic_region_data s))"
    and run: "scrape_handler e s pc = (out, s', tr)"
  shows "distinct (map postal_code (postal_code_data s'))
       \<and> distinct (map economic_region_name (economic_region_data s'))
       \<and> (\<forall>new. Fire (PostalUpsert new) \<in> set tr \<and> postal_upsert_ok e \<longrightarrow>
             select_postal (postal_code new) (postal_code_data s') = Some new
             \<and> date_retrieved new = now_postal_stamp e)
       \<and> (\<forall>n t st new. Fire (RegionUpsert n t st) \<in> set tr \<and> region_upsert_ok e
              \<and> region_params n t st = Some new \<longrightarrow>
             select_region n (economic_region_data s') = Some new
             \<and> region_date_retrieved new = now_region_stamp e)
       \<and> (\<forall>r \<in> set (postal_code_data s').
             r \<in> set (postal_code_data s) \<or> Fire (PostalUpsert r) \<in> set tr)
       \<and> (\<forall>r \<in> set (economic_region_data s').
             r \<in> set (economic_region_data s)
             \<or> (\<exists>n t st. Fire (RegionUpsert n t st) \<in> set tr \<and> region_params n t st = Some r))
       \<and> (\<forall>k. k \<noteq> pc \<longrightarrow>
             select_postal k (postal_code_data s') = select_postal k (postal_code_data s))
       \<and> (\<forall>k. (\<forall>n t st. Fire (RegionUpsert n t st) \<in> set tr \<longrightarrow> pg_param n \<noteq> Some k) \<longrightarrow>
             select_region (Str k) (economic_region_data s') =
             select_region (Str k) (economic_region_data s))
       \<and> (postal_code_data s' = postal_code_data s
           \<or> (postal_upsert_ok e \<and> (\<exists>new. Fire (PostalUpsert new) \<in> set tr)))
       \<and> (economic_region_data s' = economic_region_data s
           \<or> (region_upsert_ok e \<and> (\<exists>n t st. Fire (RegionUpsert n t st) \<in> set tr)))
       \<and> set (map postal_code (postal_code_data s)) \<subseteq> set (map postal_code (postal_code_data s'))
       \<and> set (map economic_region_name (economic_region_data s))
           \<subseteq> set (map economic_region_name (economic_region_data s'))"
  using run
proof (cases rule: scrape_handler_runs)
  case read_error
  with dp dr show ?thesis by simp
next
  case (hit row)
  let ?n = "pg_column (ei_economic_region_name row)"
  let ?u = "pg_column (ei_economic_region_url row)"
  have s': "s' = fst (snd (getEconomicRegionData e s ?n ?u))"
    and tr: "tr = Await (PostalSelect pc) # snd (snd (getEconomicRegionData e s ?n ?u))"
    by (simp_all add: hit region_call_hit_def)
  have p: "postal_code_data s' = postal_code_data s"
    by (simp add: s' getEconomicRegionData_postal_table)
  have p2: "\<And>new. Fire (PostalUpsert new) \<notin> set tr"
    by (simp add: tr getEconomicRegionData_no_postal_events)
  have c1: "distinct (map postal_code (postal_code_data s'))"
    using dp by (simp add: p)
  have c2: "distinct (map economic_region_name (economic_region_data s'))"
    using dr by (simp add: s' getEconomicRegionData_distinct)
  have c3: "\<forall>new. Fire (PostalUpsert new) \<in> set tr \<and> postal_upsert_ok e \<longrightarrow>
             select_postal (postal_code new) (postal_code_data s') = Some new
             \<and> date_retrieved new = now_postal_stamp e"
    by (simp add: p2)
  have c4: "\<forall>n t st new. Fire (RegionUpsert n t st) \<in> set tr \<and> region_upsert_ok e
              \<and> region_params n t st = Some new \<longrightarrow>
             select_region n (economic_region_data s') = Some new
             \<and> region_date_retrieved new = now_region_stamp e"
  proof (intro allI impI, elim conjE)
    fix n t st new
    assume "Fire (RegionUpsert n t st) \<in> set tr" "region_upsert_ok e"
      "region_params n t st = Some new"
    then show "select_region n (economic_region_data s') = Some new
             \<and> region_date_retrieved new = now_region_stamp e"
      using getEconomicRegionData_write [of n t st e s ?n ?u new]
      by (simp add: s' tr)
  qed
  have c5: "\<forall>r \<in> set (postal_code_data s').
             r \<in> set (postal_code_data s) \<or> Fire (PostalUpsert r) \<in> set tr"
    by (simp add: p)
  have c6: "\<forall>r \<in> set (economic_region_data s').
             r \<in> set (economic_region_data s)
             \<or> (\<exists>n t st. Fire (RegionUpsert n t st) \<in> set tr \<and> region_params n t st = Some r)"
  proof
    fix r assume "r \<in> set (economic_region_data s')"
    then have "r \<in> set (economic_region_data (fst (snd (getEconomicRegionData e s ?n ?u))))"
      by (simp add: s')
    from getEconomicRegionData_rows [OF this]
    show "r \<in> set (economic_region_data s)
        \<or> (\<exists>n t st. Fire (RegionUpsert n t st) \<in> set tr \<and> region_params n t st = Some r)"
      by (auto simp: tr)
  qed
  have c7: "\<forall>k. k \<noteq> pc \<longrightarrow>
             select_postal k (postal_code_data s') = select_postal k (postal_code_data s)"
    by (simp add: p)
  have c8: "\<forall>k. (\<forall>n t st. Fire (RegionUpsert n t st) \<in> set tr \<longrightarrow> pg_param n \<noteq> Some k) \<longrightarrow>
             select_region (Str k) (economic_region_data s') =
             select_region (Str k) (economic_region_data s)"
  proof (intro allI impI)
    fix k
    assume "\<forall>n t st. Fire (RegionUpsert n t st) \<in> set tr \<longrightarrow> pg_param n \<noteq> Some k"
    then have "\<forall>n' t st. Fire (RegionUpsert n' t st)
        \<in> set (snd (snd (getEconomicRegionData e s ?n ?u))) \<longrightarrow> pg_param n' \<noteq> Some k"
      by (simp add: tr)
    from getEconomicRegionData_other [OF this]
    show "select_region (Str k) (economic_region_data s') =
        select_region (Str k) (economic_region_data s)"
      by (simp add: s')
  qed
  have c9: "postal_code_data s' = postal_code_data s
           \<or> (postal_upsert_ok e \<and> (\<exists>new. Fire (PostalUpsert new) \<in> set tr))"
    by (simp add: p)
  have c10: "economic_region_data s' = economic_region_data s
           \<or> (region_upsert_ok e \<and> (\<exists>n t st. Fire (RegionUpsert n t st) \<in> set tr))"
    using getEconomicRegionData_unchanged [of e s ?n ?u] by (auto simp: s' tr)
  have c11: "set (map postal_code (postal_code_data s))
      \<subseteq> set (map postal_code (postal_code_data s'))"
    by (simp add: p)
  have c12: "set (map economic_region_name (economic_region_data s))
           \<subseteq> set (map economic_region_name (economic_region_data s'))"
    using getEconomicRegionData_keys [of s e ?n ?u] by (simp add: s')
  show ?thesis
    by (intro conjI) (rule c1 c2 c3 c4 c5 c6 c7 c8 c9 c10 c11 c12)+
next
  case fetch_error
  with dp dr show ?thesis by simp
next
  case (miss page)
  define new where "new = postal_params pc (scrape_postal page (now_postal_stamp e))"
  have key: "postal_code new = pc" and stamp: "date_retrieved new = now_postal_stamp e"
    by (simp_all add: new_def postal_params_key scrape_postal_stamp)
  have p: "postal_code_data s' = postal_code_data (exec_postal_upsert e new s)"
    by (simp add: miss new_def region_call_miss_postal_table)
  have fires: "\<And>r. Fire (PostalUpsert r) \<in> set tr \<longleftrightarrow> r = new"
    by (auto simp: miss new_def region_call_miss_no_postal_events)
  have rfires: "\<And>n t st. Fire (RegionUpsert n t st) \<in> set tr \<longleftrightarrow>
      Fire (RegionUpsert n t st) \<in> set (snd (snd (region_call_miss e s pc page)))"
    by (auto simp: miss)
  have c1: "distinct (map postal_code (postal_code_data s'))"
    using dp by (simp add: p exec_postal_upsert_distinct)
  have c2: "distinct (map economic_region_name (economic_region_data s'))"
    using dr by (simp add: miss region_call_miss_region_distinct)
  have c3: "\<forall>r. Fire (PostalUpsert r) \<in> set tr \<and> postal_upsert_ok e \<longrightarrow>
             select_postal (postal_code r) (postal_code_data s') = Some r
             \<and> date_retrieved r = now_postal_stamp e"
    by (simp add: fires p exec_postal_upsert_select stamp)
  have c4: "\<forall>n t st r. Fire (RegionUpsert n t st) \<in> set tr \<and> region_upsert_ok e
              \<and> region_params n t st = Some r \<longrightarrow>
             select_region n (economic_region_data s') = Some r
             \<and> region_date_retrieved r = now_region_stamp e"
  proof (intro allI impI, elim conjE)
    fix n t st r
    assume "Fire (RegionUpsert n t st) \<in> set tr" "region_upsert_ok e"
      "region_params n t st = Some r"
    then show "select_region n (economic_region_data s') = Some r
             \<and> region_date_retrieved r = now_region_stamp e"
      using region_call_miss_write [of n t st e s pc page r]
      by (simp add: miss)
  qed
  have c5: "\<forall>r \<in> set (postal_code_data s').
             r \<in> set (postal_code_data s) \<or> Fire (PostalUpsert r) \<in> set tr"
    using exec_postal_upsert_rows [of _ e new s] by (auto simp: fires p)
  have c6: "\<forall>r \<in> set (economic_region_data s').
             r \<in> set (economic_region_data s)
             \<or> (\<exists>n t st. Fire (RegionUpsert n t st) \<in> set tr \<and> region_params n t st = Some r)"
  proof
    fix r assume "r \<in> set (economic_region_data s')"
    then have "r \<in> set (economic_region_data (fst (snd (region_call_miss e s pc page))))"
      by (simp add: miss)
    from region_call_miss_rows [OF this]
    show "r \<in> set (economic_region_data s)
        \<or> (\<exists>n t st. Fire (RegionUpsert n t st) \<in> set tr \<and> region_params n t st = Some r)"
      by (auto simp: miss)
  qed
  have c7: "\<forall>k. k \<noteq> pc \<longrightarrow>
             select_postal k (postal_code_data s') = select_postal k (postal_code_data s)"
    by (simp add: p exec_postal_upsert_other key)
  have c8: "\<forall>k. (\<forall>n t st. Fire (RegionUpsert n t st) \<in> set tr \<longrightarrow> pg_param n \<noteq> Some k) \<longrightarrow>
             select_region (Str k) (economic_region_data s') =
             select_region (Str k) (economic_region_data s)"
  proof (intro allI impI)
    fix k
    assume "\<forall>n t st. Fire (RegionUpsert n t st) \<in> set tr \<longrightarrow> pg_param n \<noteq> Some k"
    then have "\<forall>n t st. Fire (RegionUpsert n t st)
        \<in> set (snd (snd (region_call_miss e s pc page))) \<longrightarrow> pg_param n \<noteq> Some k"
      by (simp add: rfires)
    from region_call_miss_other [OF this]
    show "select_region (Str k) (economic_region_data s') =
        select_region (Str k) (economic_region_data s)"
      by (simp add: miss)
  qed
  have c9: "postal_code_data s' = postal_code_data s
           \<or> (postal_upsert_ok e \<and> (\<exists>r. Fire (PostalUpsert r) \<in> set tr))"
    by (cases "postal_upsert_ok e") (simp_all add: p fires exec_postal_upsert_def)
  have c10: "economic_region_data s' = economic_region_data s
           \<or> (region_upsert_ok e \<and> (\<exists>n t st. Fire (RegionUpsert n t st) \<in> set tr))"
    using region_call_miss_unchanged [of e s pc page] by (simp add: rfires) (simp add: miss)
  have c11: "set (map postal_code (postal_code_data s))
      \<subseteq> set (map postal_code (postal_code_data s'))"
    using exec_postal_upsert_keys [of s e new] by (simp add: p)
  have c12: "set (map economic_region_name (economic_region_data s))
           \<subseteq> set (map economic_region_name (economic_region_data s'))"
    using region_call_miss_keys [of s e pc page] by (simp add: miss)
  show ?thesis
    by (intro conjI) (rule c1 c2 c3 c4 c5 c6 c7 c8 c9 c10 c11 c12)+
qed

subsection \<open>The concrete lookups, evaluated\<close>

lemmas run_eval =
  scrape_handler_def hit_path_def miss_path_def region_call_hit_def region_call_miss_def
  getEconomicRegionData_def region_miss_def scrapeEconomicRegion_def
  select_postal_def select_region_def exec_postal_upsert_def exec_region_upsert_def
  postal_params_def region_params_def scrape_postal_def scrape_rows_def scrape_row_def
  empty_tableData_def isDataStale_def THIRTY_DAYS_IN_MS_def postal_hit_def region_hit_def
  Let_def

lemmas example_eval =
  ottawa_env_def empty_store_def ottawa_store_def ottawa_postal_only_store_def
  ottawa_postal_row_def ottawa_region_row_def ottawa_postalData_def ottawa_tableData_def
  ottawa_miss_trace_def blank_region_env_def blank_postal_env_def offline_env_def
  region_down_env_def blank_postal_row_def blank_region_get_def blank_postal_get_def
  empty_page_def

lemma ottawa_miss_run:
  "scrape_handler ottawa_env empty_store ''K1A0A1'' =
     (Json200 (PostalData ottawa_postalData (EconRegionData ottawa_tableData 1000003)),
      ottawa_store, ottawa_miss_trace)"
  by (simp add: run_eval example_eval page_eval)

lemma ottawa_hit_run:
  "scrape_handler ottawa_env ottawa_store ''K1A0A1'' =
     (Json200 (PostalRow ottawa_postal_row (EconRow ottawa_region_row)),
      ottawa_store, [Await (PostalSelect ''K1A0A1''), Await (RegionSelect (Str ''Ottawa''))])"
  by (simp add: run_eval example_eval page_eval)

lemma ottawa_spaced_run:
  "fst (snd (scrape_handler ottawa_env ottawa_store ''K1A 0A1'')) =
     \<lparr>postal_code_data = [ottawa_postal_row, ottawa_postal_row\<lparr>postal_code := ''K1A 0A1''\<rparr>],
      economic_region_data = [ottawa_region_row]\<rparr>"
  by (simp add: run_eval example_eval page_eval)


lemma blank_postal_run:
  "scrape_handler blank_postal_env empty_store ''K1A0A1'' =
     (Status500 ''Error scraping postal code data'',
      \<lparr>postal_code_data = [blank_postal_row ''K1A0A1'' 1000001], economic_region_data = []\<rparr>,
      [Await (PostalSelect ''K1A0A1''),
       Await (PostalPageGet
         ''https://srv129.services.gc.ca/ei_regions/eng/postalcode.aspx?_code=K1A0A1''),
       Fire (PostalUpsert (blank_postal_row ''K1A0A1'' 1000001)),
       Await (RegionSelect (Str [])),
       Await (RegionPageGet ''https://srv129.services.gc.ca/ei_regions/eng/undefined'')])"
  by (simp add: run_eval example_eval page_eval)




lemma postal_only_run:
  "scrape_handler ottawa_env ottawa_postal_only_store ''K1A0A1'' =
     (Json200 (PostalRow ottawa_postal_row (EconRegionData ottawa_tableData 1000003)),
      ottawa_store,
      [Await (PostalSelect ''K1A0A1''),
       Await (RegionSelect (Str ''Ottawa'')),
       Await (RegionPageGet ''https://srv129.services.gc.ca/ei_regions/eng/region/35.aspx''),
       Fire (RegionUpsert (Str ''Ottawa'') ottawa_tableData 1000003)])"
  by (simp add: run_eval example_eval page_eval)

lemmas refresh_eval =
  later_env_def old_store_def refreshed_store_def refresh_trace_def toronto_postal_row_def
  toronto_region_row_def bytown_postal_row_def bytown_region_row_def refreshed_postal_row_def
  refreshed_region_row_def

lemma refresh_run:
  "scrape_handler later_env old_store ''K1A0A1'' =
     (Json200 (PostalData (ottawa_postalData\<lparr>postal_stamp := 3000000001\<rparr>)
        (EconRegionData ottawa_tableData 3000000003)),
      refreshed_store, refresh_trace)"
  by (simp add: run_eval example_eval refresh_eval page_eval)

subsection \<open>The miss path\<close>

lemma scrape_postal_blank:
  "page ''table'' = [] \<Longrightarrow>
   postal_params pc (scrape_postal page st) = blank_postal_row pc st"
  by (simp add: postal_params_def scrape_postal_def first_row_def text_at_def anchor_text_at_def
      anchor_href_at_def trim_def blank_postal_row_def)

lemma miss_run:
  assumes "\<not> postal_select_err e" and "postal_hit e s pc = None"
  shows "scrape_handler e s pc = miss_path e s pc"
  using assms by (simp add: scrape_handler_cases)

lemma hit_run:
  assumes "\<not> postal_select_err e" and "postal_hit e s pc = Some row"
  shows "scrape_handler e s pc = hit_path e s pc row"
  using assms by (simp add: scrape_handler_cases)

text \<open>
  C4, as amended. On the miss or stale path, when the fetch of the postal page fails, the
  response is the scraping error, no write is started and the store is the one the request
  found. A fetched page without a data row is no failure: the row with empty texts and no
  locator is written under the requested code.
\<close>

theorem failed_postal_fetch_writes_nothing:
  assumes "\<not> postal_select_err e" and "postal_hit e s pc = None"
  shows "(http_get e (postal_page_url pc) = None \<longrightarrow>
            scrape_handler e s pc =
              (Status500 ''Error scraping postal code data'', s,
               [Await (PostalSelect pc), Await (PostalPageGet (postal_page_url pc))]))
       \<and> (\<forall>page. http_get e (postal_page_url pc) = Some page \<and> page ''table'' = [] \<longrightarrow>
            Fire (PostalUpsert (blank_postal_row pc (now_postal_stamp e)))
              \<in> set (snd (snd (scrape_handler e s pc)))
            \<and> (postal_upsert_ok e \<longrightarrow>
                 select_postal pc (postal_code_data (fst (snd (scrape_handler e s pc)))) =
                   Some (blank_postal_row pc (now_postal_stamp e))))"
proof (intro conjI allI impI; (elim conjE)?)
  assume "http_get e (postal_page_url pc) = None"
  then show "scrape_handler e s pc =
      (Status500 ''Error scraping postal code data'', s,
       [Await (PostalSelect pc), Await (PostalPageGet (postal_page_url pc))])"
    by (simp add: miss_run [OF assms] miss_path_failed_fetch)
next
  fix page
  assume page: "http_get e (postal_page_url pc) = Some page" and blank: "page ''table'' = []"
  show "Fire (PostalUpsert (blank_postal_row pc (now_postal_stamp e)))
      \<in> set (snd (snd (scrape_handler e s pc)))"
    by (simp add: miss_run [OF assms] miss_path_trace [OF page] scrape_postal_blank [of page, OF blank])
next
  fix page
  assume page: "http_get e (postal_page_url pc) = Some page" and blank: "page ''table'' = []"
    and ok: "postal_upsert_ok e"
  have "postal_code (blank_postal_row pc (now_postal_stamp e)) = pc"
    by (simp add: blank_postal_row_def)
  with exec_postal_upsert_select [OF ok, of "blank_postal_row pc (now_postal_stamp e)" s]
  show "select_postal pc (postal_code_data (fst (snd (scrape_handler e s pc)))) =
      Some (blank_postal_row pc (now_postal_stamp e))"
    by (simp add: miss_run [OF assms] miss_path_store [OF page] region_call_miss_postal_table
        scrape_postal_blank [of page, OF blank])
qed

text \<open>
  Two lookups on the empty store: the remote source unreachable, and the remote source
  answering with a page that has no row.
\<close>

theorem failed_postal_fetch_writes_nothing_witness:
  "\<not> postal_select_err offline_env \<and> postal_hit offline_env empty_store ''K1A0A1'' = None
   \<and> http_get offline_env (postal_page_url ''K1A0A1'') = None
   \<and> scrape_handler offline_env empty_store ''K1A0A1'' =
       (Status500 ''Error scraping postal code data'', empty_store,
        [Await (PostalSelect ''K1A0A1''), Await (PostalPageGet (postal_page_url ''K1A0A1''))])
   \<and> \<not> postal_select_err blank_postal_env
   \<and> postal_hit blank_postal_env empty_store ''K1A0A1'' = None
   \<and> http_get blank_postal_env (postal_page_url ''K1A0A1'') = Some empty_page
   \<and> empty_page ''table'' = [] \<and> postal_upsert_ok blank_postal_env
   \<and> select_postal ''K1A0A1''
        (postal_code_data (fst (snd (scrape_handler blank_postal_env empty_store ''K1A0A1'')))) =
       Some (blank_postal_row ''K1A0A1'' (now_postal_stamp blank_postal_env))"
proof -
  have a1: "\<not> postal_select_err offline_env"
    and a2: "postal_hit offline_env empty_store ''K1A0A1'' = None"
    and a3: "http_get offline_env (postal_page_url ''K1A0A1'') = None"
    by (simp_all add: example_eval postal_hit_def select_postal_def)
  have b1: "\<not> postal_select_err blank_postal_env"
    and b2: "postal_hit blank_postal_env empty_store ''K1A0A1'' = None"
    and b3: "http_get blank_postal_env (postal_page_url ''K1A0A1'') = Some empty_page"
    and b4: "empty_page ''table'' = []" and b5: "postal_upsert_ok blank_postal_env"
    by (simp_all add: example_eval postal_hit_def select_postal_def page_eval)
  from failed_postal_fetch_writes_nothing [OF a1 a2] a3
  have a: "scrape_handler offline_env empty_store ''K1A0A1'' =
       (Status500 ''Error scraping postal code data'', empty_store,
        [Await (PostalSelect ''K1A0A1''), Await (PostalPageGet (postal_page_url ''K1A0A1''))])"
    by blast
  from failed_postal_fetch_writes_nothing [OF b1 b2] b3 b4 b5
  have b: "select_postal ''K1A0A1''
        (postal_code_data (fst (snd (scrape_handler blank_postal_env empty_store ''K1A0A1'')))) =
       Some (blank_postal_row ''K1A0A1'' (now_postal_stamp blank_postal_env))"
    by blast
  from a1 a2 a3 a b1 b2 b3 b4 b5 b show ?thesis by blast
qed

text \<open>
  Against C4 as stated: the postal page has no data row, the lookup ends in the scraping
  error, and yet a row was written to the empty postal table.
\<close>

theorem blank_postal_page_is_written:
  "http_get blank_postal_env (postal_page_url ''K1A0A1'') = Some empty_page
   \<and> empty_page ''table'' = []
   \<and> postal_code_data empty_store = []
   \<and> fst (scrape_handler blank_postal_env empty_store ''K1A0A1'') =
       Status500 ''Error scraping postal code data''
   \<and> postal_code_data (fst (snd (scrape_handler blank_postal_env empty_store ''K1A0A1''))) =
       [blank_postal_row ''K1A0A1'' 1000001]"
  by (simp add: blank_postal_run) (simp add: example_eval page_eval)

text \<open>
  C9, as amended. On the miss or stale path with a fetched postal page, the operations are
  started in the order postal read, postal page fetch, postal write, region read; the
  postal write is started and not waited for, so the region lookup begins without its
  completion.
\<close>

theorem miss_path_starts_operations_in_order:
  assumes "\<not> postal_select_err e" and "postal_hit e s pc = None"
    and "http_get e (postal_page_url pc) = Some page"
  shows "snd (snd (scrape_handler e s pc)) =
           [Await (PostalSelect pc), Await (PostalPageGet (postal_page_url pc)),
            Fire (PostalUpsert (postal_params pc (scrape_postal page (now_postal_stamp e))))]
           @ snd (snd (region_call_miss e s pc page))
       \<and> hd (snd (snd (region_call_miss e s pc page))) =
           Await (RegionSelect (Str (EIEconomicRegionName (scrape_postal page (now_postal_stamp e)))))
       \<and> (\<forall>new. Await (PostalUpsert new) \<notin> set (snd (snd (scrape_handler e s pc))))"
proof -
  have tr: "snd (snd (scrape_handler e s pc)) =
           [Await (PostalSelect pc), Await (PostalPageGet (postal_page_url pc)),
            Fire (PostalUpsert (postal_params pc (scrape_postal page (now_postal_stamp e))))]
           @ snd (snd (region_call_miss e s pc page))"
    by (simp add: miss_run [OF assms(1,2)] miss_path_trace [OF assms(3)])
  have first: "hd (snd (snd (region_call_miss e s pc page))) =
      Await (RegionSelect (Str (EIEconomicRegionName (scrape_postal page (now_postal_stamp e)))))"
    by (simp add: region_call_miss_def Let_def getEconomicRegionData_trace_hd)
  have none: "\<forall>new. Await (PostalUpsert new) \<notin> set (snd (snd (scrape_handler e s pc)))"
    by (simp add: tr region_call_miss_no_postal_events)
  from tr first none show ?thesis by blast
qed

text \<open>
  The lookup of \<open>K1A0A1\<close> on the empty store.
\<close>

theorem miss_path_starts_operations_in_order_witness:
  "\<not> postal_select_err ottawa_env \<and> postal_hit ottawa_env empty_store ''K1A0A1'' = None
   \<and> http_get ottawa_env (postal_page_url ''K1A0A1'') = Some ottawa_postal_page
   \<and> snd (snd (scrape_handler ottawa_env empty_store ''K1A0A1'')) =
       [Await (PostalSelect ''K1A0A1''), Await (PostalPageGet (postal_page_url ''K1A0A1'')),
        Fire (PostalUpsert ottawa_postal_row)]
       @ snd (snd (region_call_miss ottawa_env empty_store ''K1A0A1'' ottawa_postal_page))
   \<and> hd (snd (snd (region_call_miss ottawa_env empty_store ''K1A0A1'' ottawa_postal_page))) =
       Await (RegionSelect (Str ''Ottawa''))"
proof -
  have a1: "\<not> postal_select_err ottawa_env"
    and a2: "postal_hit ottawa_env empty_store ''K1A0A1'' = None"
    and a3: "http_get ottawa_env (postal_page_url ''K1A0A1'') = Some ottawa_postal_page"
    by (simp_all add: example_eval postal_hit_def select_postal_def page_eval)
  have row: "postal_params ''K1A0A1'' (scrape_postal ottawa_postal_page (now_postal_stamp ottawa_env))
      = ottawa_postal_row"
    by (simp add: run_eval example_eval page_eval)
  have name: "EIEconomicRegionName (scrape_postal ottawa_postal_page (now_postal_stamp ottawa_env))
      = ''Ottawa''"
    by (simp add: run_eval example_eval page_eval)
  from miss_path_starts_operations_in_order [OF a1 a2 a3] a1 a2 a3
  show ?thesis by (simp add: row name)
qed

text \<open>
  Against C9 as stated: in the lookup on the empty store the postal write is started and
  never waited for; the region read follows it at once.
\<close>

theorem postal_upsert_is_not_awaited:
  "snd (snd (scrape_handler ottawa_env empty_store ''K1A0A1'')) =
     [Await (PostalSelect ''K1A0A1''),
      Await (PostalPageGet
        ''https://srv129.services.gc.ca/ei_regions/eng/postalcode.aspx?_code=K1A0A1''),
      Fire (PostalUpsert ottawa_postal_row),
      Await (RegionSelect (Str ''Ottawa'')),
      Await (RegionPageGet ''https://srv129.services.gc.ca/ei_regions/eng/region/35.aspx''),
      Fire (RegionUpsert (Str ''Ottawa'') ottawa_tableData 1000003)]
   \<and> Await (PostalUpsert ottawa_postal_row)
       \<notin> set (snd (snd (scrape_handler ottawa_env empty_store ''K1A0A1'')))"
  by (simp add: ottawa_miss_run ottawa_miss_trace_def)

subsection \<open>The concrete lookup as instance\<close>

text \<open>
  With the postal row stored and no region row, the lookup of \<open>K1A0A1\<close>
  returns the stored row and fetches the region page only.
\<close>

theorem cache_hit_skips_postal_fetch_witness:
  "\<not> postal_select_err ottawa_env
   \<and> select_postal ''K1A0A1'' (postal_code_data ottawa_postal_only_store) = Some ottawa_postal_row
   \<and> now_postal_check ottawa_env - date_retrieved ottawa_postal_row \<le> THIRTY_DAYS_IN_MS
   \<and> \<not> region_select_err ottawa_env
   \<and> region_hit ottawa_env ottawa_postal_only_store
        (pg_column (ei_economic_region_name ottawa_postal_row)) = None
   \<and> fst (region_call_hit ottawa_env ottawa_postal_only_store ottawa_postal_row) =
        Inr (EconRegionData ottawa_tableData 1000003)
   \<and> Await (PostalPageGet (postal_page_url ''K1A0A1''))
        \<notin> set (snd (snd (scrape_handler ottawa_env ottawa_postal_only_store ''K1A0A1'')))
   \<and> postal_code_data (fst (snd (scrape_handler ottawa_env ottawa_postal_only_store ''K1A0A1''))) =
        postal_code_data ottawa_postal_only_store
   \<and> fst (scrape_handler ottawa_env ottawa_postal_only_store ''K1A0A1'') =
        Json200 (PostalRow ottawa_postal_row (EconRegionData ottawa_tableData 1000003))
   \<and> Await (RegionPageGet (region_page_url (pg_column (ei_economic_region_url ottawa_postal_row))))
        \<in> set (snd (snd (scrape_handler ottawa_env ottawa_postal_only_store ''K1A0A1'')))"
proof -
  have a1: "\<not> postal_select_err ottawa_env"
    and a2: "select_postal ''K1A0A1'' (postal_code_data ottawa_postal_only_store) =
      Some ottawa_postal_row"
    and a3: "now_postal_check ottawa_env - date_retrieved ottawa_postal_row \<le> THIRTY_DAYS_IN_MS"
    and a4: "\<not> region_select_err ottawa_env"
    and a5: "region_hit ottawa_env ottawa_postal_only_store
        (pg_column (ei_economic_region_name ottawa_postal_row)) = None"
    by (simp_all add: example_eval select_postal_def THIRTY_DAYS_IN_MS_def region_hit_def
        select_region_def)
  have a6: "fst (region_call_hit ottawa_env ottawa_postal_only_store ottawa_postal_row) =
        Inr (EconRegionData ottawa_tableData 1000003)"
    by (simp add: run_eval example_eval page_eval)
  note hit = cache_hit_skips_postal_fetch [OF a2 a3]
  note c1 = hit [THEN conjunct1, THEN spec, THEN conjunct1]
  note c3 = hit [THEN conjunct2, THEN conjunct2, THEN conjunct1]
  note c4 = hit [THEN conjunct2, THEN conjunct2, THEN conjunct2, THEN conjunct1, THEN spec,
      THEN mp, OF conjI, OF a1 a6]
  note c5 = hit [THEN conjunct2, THEN conjunct2, THEN conjunct2, THEN conjunct2, THEN mp,
      OF conjI, OF a1 conjI, OF a4 a5]
  show ?thesis
    by (intro conjI) (rule a1 a2 a3 a4 a5 a6 c1 c3 c4 c5)+
qed

text \<open>
  The lookup of \<open>K1A0A1\<close> on a store that holds both keys with older contents,
  beside a Toronto row in each table, at a time when the rows are stale: the two rows are
  replaced column by column and carry the clock readings of their writes, the Toronto rows
  read as before.
\<close>

theorem upserts_keep_store_invariants_witness:
  "distinct (map postal_code (postal_code_data old_store))
   \<and> distinct (map economic_region_name (economic_region_data old_store))
   \<and> scrape_handler later_env old_store ''K1A0A1'' =
       (Json200 (PostalData (ottawa_postalData\<lparr>postal_stamp := 3000000001\<rparr>)
          (EconRegionData ottawa_tableData 3000000003)),
        refreshed_store, refresh_trace)
   \<and> select_postal ''K1A0A1'' (postal_code_data old_store) = Some bytown_postal_row
   \<and> select_region (Str ''Ottawa'') (economic_region_data old_store) = Some bytown_region_row
   \<and> select_postal ''M5V2T6'' (postal_code_data old_store) = Some toronto_postal_row
   \<and> select_region (Str ''Toronto'') (economic_region_data old_store) = Some toronto_region_row
   \<and> Fire (PostalUpsert refreshed_postal_row) \<in> set refresh_trace
   \<and> postal_upsert_ok later_env
   \<and> Fire (RegionUpsert (Str ''Ottawa'') ottawa_tableData 3000000003) \<in> set refresh_trace
   \<and> region_upsert_ok later_env
   \<and> region_params (Str ''Ottawa'') ottawa_tableData 3000000003 = Some refreshed_region_row
   \<and> refreshed_postal_row \<in> set (postal_code_data refreshed_store)
   \<and> refreshed_region_row \<in> set (economic_region_data refreshed_store)
   \<and> ''M5V2T6'' \<noteq> ''K1A0A1''
   \<and> distinct (map postal_code (postal_code_data refreshed_store))
   \<and> distinct (map economic_region_name (economic_region_data refreshed_store))
   \<and> (select_postal (postal_code refreshed_postal_row) (postal_code_data refreshed_store) =
         Some refreshed_postal_row
       \<and> date_retrieved refreshed_postal_row = now_postal_stamp later_env)
   \<and> (select_region (Str ''Ottawa'') (economic_region_data refreshed_store) =
         Some refreshed_region_row
       \<and> region_date_retrieved refreshed_region_row = now_region_stamp later_env)
   \<and> (refreshed_postal_row \<in> set (postal_code_data old_store)
       \<or> Fire (PostalUpsert refreshed_postal_row) \<in> set refresh_trace)
   \<and> (refreshed_region_row \<in> set (economic_region_data old_store)
       \<or> (\<exists>n t st. Fire (RegionUpsert n t st) \<in> set refresh_trace
             \<and> region_params n t st = Some refreshed_region_row))
   \<and> select_postal ''M5V2T6'' (postal_code_data refreshed_store) =
       select_postal ''M5V2T6'' (postal_code_data old_store)
   \<and> select_region (Str ''Toronto'') (economic_region_data refreshed_store) =
       select_region (Str ''Toronto'') (economic_region_data old_store)
   \<and> (postal_code_data refreshed_store = postal_code_data old_store
       \<or> (postal_upsert_ok later_env \<and> (\<exists>new. Fire (PostalUpsert new) \<in> set refresh_trace)))
   \<and> (economic_region_data refreshed_store = economic_region_data old_store
       \<or> (region_upsert_ok later_env
           \<and> (\<exists>n t st. Fire (RegionUpsert n t st) \<in> set refresh_trace)))
   \<and> set (map postal_code (postal_code_data old_store))
       \<subseteq> set (map postal_code (postal_code_data refreshed_store))
   \<and> set (map economic_region_name (economic_region_data old_store))
       \<subseteq> set (map economic_region_name (economic_region_data refreshed_store))"
proof -
  have a1: "distinct (map postal_code (postal_code_data old_store))"
    and a2: "distinct (map economic_region_name (economic_region_data old_store))"
    by (simp_all add: old_store_def toronto_postal_row_def bytown_postal_row_def
        toronto_region_row_def bytown_region_row_def)
  have o1: "select_postal ''K1A0A1'' (postal_code_data old_store) = Some bytown_postal_row"
    and o2: "select_region (Str ''Ottawa'') (economic_region_data old_store) =
      Some bytown_region_row"
    and o3: "select_postal ''M5V2T6'' (postal_code_data old_store) = Some toronto_postal_row"
    and o4: "select_region (Str ''Toronto'') (economic_region_data old_store) =
      Some toronto_region_row"
    by (simp_all add: select_postal_def select_region_def old_store_def toronto_postal_row_def
        bytown_postal_row_def toronto_region_row_def bytown_region_row_def)
  have b1: "Fire (PostalUpsert refreshed_postal_row) \<in> set refresh_trace"
    and b2: "postal_upsert_ok later_env"
    and b3: "Fire (RegionUpsert (Str ''Ottawa'') ottawa_tableData 3000000003)
      \<in> set refresh_trace"
    and b4: "region_upsert_ok later_env"
    by (simp_all add: refresh_trace_def later_env_def ottawa_env_def)
  have b5: "region_params (Str ''Ottawa'') ottawa_tableData 3000000003 =
      Some refreshed_region_row"
    by (simp add: region_params_def ottawa_tableData_def refreshed_region_row_def)
  have m1: "refreshed_postal_row \<in> set (postal_code_data refreshed_store)"
    and m2: "refreshed_region_row \<in> set (economic_region_data refreshed_store)"
    by (simp_all add: refreshed_store_def)
  have k: "''M5V2T6'' \<noteq> ''K1A0A1''"
    by simp
  have fr: "\<forall>n t st. Fire (RegionUpsert n t st) \<in> set refresh_trace \<longrightarrow>
      pg_param n \<noteq> Some ''Toronto''"
    by (simp add: refresh_trace_def)
  note inv = upserts_keep_store_invariants [OF a1 a2 refresh_run]
  note c1 = inv [THEN conjunct1]
  note r1 = inv [THEN conjunct2]
  note c2 = r1 [THEN conjunct1]
  note r2 = r1 [THEN conjunct2]
  note c3 = r2 [THEN conjunct1, THEN spec, THEN mp, OF conjI, OF b1 b2]
  note r3 = r2 [THEN conjunct2]
  note c4 = r3 [THEN conjunct1, THEN spec, THEN spec, THEN spec, THEN spec, THEN mp,
      OF conjI, OF b3 conjI, OF b4 b5]
  note r4 = r3 [THEN conjunct2]
  note c5 = r4 [THEN conjunct1, THEN bspec, OF m1]
  note r5 = r4 [THEN conjunct2]
  note c6 = r5 [THEN conjunct1, THEN bspec, OF m2]
  note r6 = r5 [THEN conjunct2]
  note c7 = r6 [THEN conjunct1, THEN spec, THEN mp, OF k]
  note r7 = r6 [THEN conjunct2]
  note c8 = r7 [THEN conjunct1, THEN spec, THEN mp, OF fr]
  note r8 = r7 [THEN conjunct2]
  note c9 = r8 [THEN conjunct1]
  note r9 = r8 [THEN conjunct2]
  note c10 = r9 [THEN conjunct1]
  note r10 = r9 [THEN conjunct2]
  note c11 = r10 [THEN conjunct1]
  note c12 = r10 [THEN conjunct2]
  show ?thesis
    by (intro conjI) (rule a1 a2 refresh_run o1 o2 o3 o4 b1 b2 b3 b4 b5 m1 m2 k c1 c2
        c3 [THEN conjunct1] c3 [THEN conjunct2] c4 [THEN conjunct1] c4 [THEN conjunct2]
        c5 c6 c7 c8 c9 c10 c11 c12)+
qed

subsection \<open>The postal code as key and in the locator\<close>

lemma replace_first_space_single:
  "count_list pc (CHR '' '') \<le> 1 \<Longrightarrow> CHR '' '' \<notin> set (replace_first_space pc)"
proof (induction pc)
  case Nil
  then show ?case by simp
next
  case (Cons c cs)
  show ?case
  proof (cases "c = CHR '' ''")
    case True
    with Cons.prems have "count_list cs (CHR '' '') = 0" by simp
    then have "CHR '' '' \<notin> set cs" by (simp add: count_list_0_iff)
    with True show ?thesis by simp
  next
    case False
    with Cons show ?thesis by simp
  qed
qed

lemma region_trace_no_postal_select:
  "Await (PostalSelect k) \<notin> set (snd (snd (getEconomicRegionData e s n u)))"
  by (auto simp: getEconomicRegionData_cases region_miss_cases split: option.splits)

text \<open>
  C3, as amended. The postal code is the store key as it was received: the read and the
  write both use the input string unchanged. The locator of the postal page embeds the
  input with its first space removed, which leaves no space when the input has at most
  one.
\<close>

theorem postal_code_used_as_received:
  "hd (snd (snd (scrape_handler e s pc))) = Await (PostalSelect pc)
   \<and> (\<forall>k. Await (PostalSelect k) \<in> set (snd (snd (scrape_handler e s pc))) \<longrightarrow> k = pc)
   \<and> (\<forall>new. Fire (PostalUpsert new) \<in> set (snd (snd (scrape_handler e s pc))) \<longrightarrow>
         postal_code new = pc)
   \<and> (\<forall>u. Await (PostalPageGet u) \<in> set (snd (snd (scrape_handler e s pc))) \<longrightarrow>
         u = BASE_URL @ POSTAL_CODE_ENDPOINT @ replace_first_space pc)
   \<and> (count_list pc (CHR '' '') \<le> 1 \<longrightarrow> CHR '' '' \<notin> set (replace_first_space pc))"
proof -
  obtain out s' tr where run: "scrape_handler e s pc = (out, s', tr)"
    by (cases "scrape_handler e s pc")
  have "hd tr = Await (PostalSelect pc)
   \<and> (\<forall>k. Await (PostalSelect k) \<in> set tr \<longrightarrow> k = pc)
   \<and> (\<forall>new. Fire (PostalUpsert new) \<in> set tr \<longrightarrow> postal_code new = pc)
   \<and> (\<forall>u. Await (PostalPageGet u) \<in> set tr \<longrightarrow>
         u = BASE_URL @ POSTAL_CODE_ENDPOINT @ replace_first_space pc)"
    using run
  proof (cases rule: scrape_handler_runs)
    case read_error
    then show ?thesis by simp
  next
    case (hit row)
    then show ?thesis
      by (simp add: region_call_hit_def region_trace_no_postal_select
          getEconomicRegionData_no_postal_events)
  next
    case fetch_error
    then show ?thesis by (simp add: postal_page_url_def)
  next
    case (miss page)
    then show ?thesis
      by (simp add: region_call_miss_def Let_def postal_params_key postal_page_url_def
          region_trace_no_postal_select getEconomicRegionData_no_postal_events)
  qed
  with replace_first_space_single [of pc] show ?thesis by (simp add: run)
qed

text \<open>
  The lookup of \<open>K1A 0A1\<close>, written with its space, on the empty store.
\<close>

theorem postal_code_used_as_received_witness:
  "Await (PostalSelect ''K1A 0A1'') \<in> set (snd (snd (scrape_handler ottawa_env empty_store ''K1A 0A1'')))
   \<and> Fire (PostalUpsert (ottawa_postal_row\<lparr>postal_code := ''K1A 0A1''\<rparr>))
       \<in> set (snd (snd (scrape_handler ottawa_env empty_store ''K1A 0A1'')))
   \<and> Await (PostalPageGet
        ''https://srv129.services.gc.ca/ei_regions/eng/postalcode.aspx?_code=K1A0A1'')
       \<in> set (snd (snd (scrape_handler ottawa_env empty_store ''K1A 0A1'')))
   \<and> count_list ''K1A 0A1'' (CHR '' '') \<le> 1
   \<and> hd (snd (snd (scrape_handler ottawa_env empty_store ''K1A 0A1''))) =
       Await (PostalSelect ''K1A 0A1'')
   \<and> postal_code (ottawa_postal_row\<lparr>postal_code := ''K1A 0A1''\<rparr>) = ''K1A 0A1''
   \<and> ''https://srv129.services.gc.ca/ei_regions/eng/postalcode.aspx?_code=K1A0A1'' =
       BASE_URL @ POSTAL_CODE_ENDPOINT @ replace_first_space ''K1A 0A1''
   \<and> CHR '' '' \<notin> set (replace_first_space ''K1A 0A1'')"
proof -
  have tr: "snd (snd (scrape_handler ottawa_env empty_store ''K1A 0A1'')) =
     [Await (PostalSelect ''K1A 0A1''),
      Await (PostalPageGet
        ''https://srv129.services.gc.ca/ei_regions/eng/postalcode.aspx?_code=K1A0A1''),
      Fire (PostalUpsert (ottawa_postal_row\<lparr>postal_code := ''K1A 0A1''\<rparr>)),
      Await (RegionSelect (Str ''Ottawa'')),
      Await (RegionPageGet ''https://srv129.services.gc.ca/ei_regions/eng/region/35.aspx''),
      Fire (RegionUpsert (Str ''Ottawa'') ottawa_tableData 1000003)]"
    by (simp add: run_eval example_eval page_eval)
  have a1: "Await (PostalSelect ''K1A 0A1'')
      \<in> set (snd (snd (scrape_handler ottawa_env empty_store ''K1A 0A1'')))"
    and a2: "Fire (PostalUpsert (ottawa_postal_row\<lparr>postal_code := ''K1A 0A1''\<rparr>))
       \<in> set (snd (snd (scrape_handler ottawa_env empty_store ''K1A 0A1'')))"
    and a3: "Await (PostalPageGet
        ''https://srv129.services.gc.ca/ei_regions/eng/postalcode.aspx?_code=K1A0A1'')
       \<in> set (snd (snd (scrape_handler ottawa_env empty_store ''K1A 0A1'')))"
    by (simp_all add: tr)
  have a4: "count_list ''K1A 0A1'' (CHR '' '') \<le> 1"
    by simp
  note used = postal_code_used_as_received [of ottawa_env empty_store "''K1A 0A1''"]
  note c1 = used [THEN conjunct1]
  note c3 = used [THEN conjunct2, THEN conjunct2, THEN conjunct1, THEN spec, THEN mp, OF a2]
  note c4 = used [THEN conjunct2, THEN conjunct2, THEN conjunct2, THEN conjunct1, THEN spec,
      THEN mp, OF a3]
  note c5 = used [THEN conjunct2, THEN conjunct2, THEN conjunct2, THEN conjunct2, THEN mp, OF a4]
  show ?thesis
    by (intro conjI) (rule a1 a2 a3 a4 c1 c3 c4 c5)+
qed

text \<open>
  Against C3 as stated: with a fresh row stored for \<open>K1A0A1\<close>, the lookup of
  \<open>K1A 0A1\<close> misses and adds a second row; and of two spaces the locator keeps
  one.
\<close>

theorem spaced_code_is_another_key:
  "postal_hit ottawa_env ottawa_store ''K1A0A1'' = Some ottawa_postal_row
   \<and> postal_hit ottawa_env ottawa_store ''K1A 0A1'' = None
   \<and> map postal_code
       (postal_code_data (fst (snd (scrape_handler ottawa_env ottawa_store ''K1A 0A1'')))) =
       [''K1A0A1'', ''K1A 0A1'']
   \<and> replace_first_space ''K1A  0A1'' = ''K1A 0A1''"
  by (simp add: ottawa_spaced_run)
    (simp add: postal_hit_def select_postal_def isDataStale_def THIRTY_DAYS_IN_MS_def
      example_eval)

subsection \<open>Failures\<close>







subsection \<open>Hit and miss results\<close>

lemma miss_result_stored:
  assumes run: "scrape_handler e s pc = (Json200 (PostalData pd d), s', tr)"
    and ok: "postal_upsert_ok e"
  shows "select_postal pc (postal_code_data s') = Some (postal_params pc pd)"
proof (cases "postal_select_err e")
  case True
  with run show ?thesis by (simp add: scrape_handler_cases)
next
  case no_err: False
  show ?thesis
  proof (cases "postal_hit e s pc")
    case (Some row)
    from run have "fst (hit_path e s pc row) = Json200 (PostalData pd d)"
      by (simp add: hit_run [OF no_err Some])
    then show ?thesis by (simp add: hit_path_outcome split: sum.splits)
  next
    case None
    have miss: "miss_path e s pc = (Json200 (PostalData pd d), s', tr)"
      using run by (simp add: miss_run [OF no_err None])
    show ?thesis
    proof (cases "http_get e (postal_page_url pc)")
      case no_page: None
      with miss show ?thesis by (simp add: miss_path_failed_fetch)
    next
      case (Some page)
      from miss have "fst (miss_path e s pc) = Json200 (PostalData pd d)" by simp
      then have pd: "pd = scrape_postal page (now_postal_stamp e)"
        by (simp add: miss_path_outcome [OF Some] split: sum.splits)
      from miss have "s' = fst (snd (miss_path e s pc))" by simp
      then have "postal_code_data s' =
          postal_code_data (exec_postal_upsert e (postal_params pc pd) s)"
        by (simp add: miss_path_store [OF Some] region_call_miss_postal_table pd)
      with exec_postal_upsert_select [OF ok, of "postal_params pc pd" s]
      show ?thesis by (simp add: postal_params_key)
    qed
  qed
qed

lemma fresh_region_stored:
  assumes run: "getEconomicRegionData e s (Str n) u = (Inr (EconRegionData t st), s', tr)"
    and ok: "region_upsert_ok e"
  shows "\<exists>row. region_params (Str n) t st = Some row
           \<and> select_region (Str n) (economic_region_data s') = Some row"
proof -
  have params: "region_params (Str n) t st = Some
      \<lparr>economic_region_name = n, province = pg_param (Province t),
       economic_region_code = pg_param (EconomicRegionCode t),
       unemployment_rate = pg_param (UnemploymentRate t),
       insured_hours_required = pg_param (InsuredHoursRequired t),
       min_weeks_payable = pg_param (MinWeeksPayable t),
       max_weeks_payable = pg_param (MaxWeeksPayable t),
       best_weeks_required = pg_param (BestWeeksRequired t),
       region_date_retrieved = st\<rparr>" (is "_ = Some ?row")
    by (simp add: region_params_def)
  from run have "s' = exec_region_upsert e (Str n) t st s"
    by (auto simp: getEconomicRegionData_cases region_miss_cases split: if_splits option.splits)
  with exec_region_upsert_select [OF ok params, of s]
  have "select_region (Str n) (economic_region_data s') = Some ?row" by simp
  with params show ?thesis by blast
qed

lemma json_prop_column_key: "map fst (json_prop k (pg_column c)) = [k]"
  by (cases c) simp_all

lemma json_prop_Str_key: "map fst (json_prop k (Str v)) = [k]"
  by simp

text \<open>
  C10, as amended. The hit path answers with the stored row under the column names of the
  table, the miss path with the scraped object under the names the code gave it, and so
  for a cached and a fresh region detail. The row that a miss stores, which a later hit
  returns, holds the requested code as key and, column by column, the values of the miss
  result; the same holds for the region row.
\<close>

theorem hit_returns_row_stored_by_miss:
  "(postal_upsert_ok e \<and> scrape_handler e s pc = (Json200 (PostalData pd d), s', tr)
      \<and> \<not> postal_select_err e2 \<and> \<not> isDataStale (now_postal_check e2) (postal_stamp pd)
      \<and> fst (scrape_handler e2 s' pc) = Json200 r2 \<longrightarrow>
        (\<exists>d2. r2 = PostalRow (postal_params pc pd) d2))
   \<and> (region_upsert_ok e
      \<and> getEconomicRegionData e s0 (Str n) u = (Inr (EconRegionData t st), s1, tr1)
      \<and> \<not> region_select_err e2 \<and> \<not> isDataStale (now_region_check e2) st \<longrightarrow>
        (\<exists>row. region_params (Str n) t st = Some row
           \<and> getEconomicRegionData e2 s1 (Str n) u2 =
               (Inr (EconRow row), s1, [Await (RegionSelect (Str n))])))
   \<and> map fst (result_props (PostalRow row d)) =
       [''postal_code'', ''census_subdivision_name'', ''common_name'', ''census_division_name'',
        ''ei_economic_region_name'', ''ei_economic_region_url'', ''date_retrieved'',
        ''EconomicRegionDetails'']
   \<and> map fst (result_props (PostalData pd d)) =
       [''PostalCode'', ''CensusSubdivisionName'', ''CommonName'', ''CensusDivisionName'',
        ''EIEconomicRegionName'']
       @ map fst (json_prop ''EIEconomicRegionURL'' (EIEconomicRegionURL pd))
       @ [''date_retrieved'', ''EconomicRegionDetails'']
   \<and> map fst (region_details_props (EconRow econRow)) =
       [''economic_region_name'', ''province'', ''economic_region_code'', ''unemployment_rate'',
        ''insured_hours_required'', ''min_weeks_payable'', ''max_weeks_payable'',
        ''best_weeks_required'', ''date_retrieved'']
   \<and> map fst (region_details_props (EconRegionData (scrape_row t0 cells) st)) =
       [''Province'', ''EconomicRegionCode'', ''EconomicRegionName'', ''UnemploymentRate'',
        ''InsuredHoursRequired'', ''MinWeeksPayable'', ''MaxWeeksPayable'',
        ''BestWeeksRequired'', ''date_retrieved'']"
proof (intro conjI impI; (elim conjE)?)
  assume ok: "postal_upsert_ok e"
    and run: "scrape_handler e s pc = (Json200 (PostalData pd d), s', tr)"
    and no_err: "\<not> postal_select_err e2"
    and fresh: "\<not> isDataStale (now_postal_check e2) (postal_stamp pd)"
    and out: "fst (scrape_handler e2 s' pc) = Json200 r2"
  from miss_result_stored [OF run ok] fresh
  have hit: "postal_hit e2 s' pc = Some (postal_params pc pd)"
    by (simp add: postal_hit_def postal_params_key)
  from out show "\<exists>d2. r2 = PostalRow (postal_params pc pd) d2"
    by (auto simp: hit_run [OF no_err hit] hit_path_outcome split: sum.splits)
next
  assume ok: "region_upsert_ok e"
    and run: "getEconomicRegionData e s0 (Str n) u = (Inr (EconRegionData t st), s1, tr1)"
    and no_err: "\<not> region_select_err e2"
    and fresh: "\<not> isDataStale (now_region_check e2) st"
  from fresh_region_stored [OF run ok] obtain row
    where row: "region_params (Str n) t st = Some row"
      and sel: "select_region (Str n) (economic_region_data s1) = Some row"
    by blast
  from row have "region_date_retrieved row = st"
    by (simp add: region_params_key)
  with sel fresh have "region_hit e2 s1 (Str n) = Some row"
    by (simp add: region_hit_def)
  with no_err have "getEconomicRegionData e2 s1 (Str n) u2 =
      (Inr (EconRow row), s1, [Await (RegionSelect (Str n))])"
    by (simp add: getEconomicRegionData_cases)
  with row show "\<exists>row. region_params (Str n) t st = Some row
           \<and> getEconomicRegionData e2 s1 (Str n) u2 =
               (Inr (EconRow row), s1, [Await (RegionSelect (Str n))])"
    by blast
next
  show "map fst (result_props (PostalRow row d)) =
       [''postal_code'', ''census_subdivision_name'', ''common_name'', ''census_division_name'',
        ''ei_economic_region_name'', ''ei_economic_region_url'', ''date_retrieved'',
        ''EconomicRegionDetails'']"
    by (simp add: postalRow_props_def json_prop_column_key)
next
  show "map fst (result_props (PostalData pd d)) =
       [''PostalCode'', ''CensusSubdivisionName'', ''CommonName'', ''CensusDivisionName'',
        ''EIEconomicRegionName'']
       @ map fst (json_prop ''EIEconomicRegionURL'' (EIEconomicRegionURL pd))
       @ [''date_retrieved'', ''EconomicRegionDetails'']"
    by (simp add: postalData_props_def)
next
  show "map fst (region_details_props (EconRow econRow)) =
       [''economic_region_name'', ''province'', ''economic_region_code'', ''unemployment_rate'',
        ''insured_hours_required'', ''min_weeks_payable'', ''max_weeks_payable'',
        ''best_weeks_required'', ''date_retrieved'']"
    by (simp add: econRow_props_def json_prop_column_key)
next
  show "map fst (region_details_props (EconRegionData (scrape_row t0 cells) st)) =
       [''Province'', ''EconomicRegionCode'', ''EconomicRegionName'', ''UnemploymentRate'',
        ''InsuredHoursRequired'', ''MinWeeksPayable'', ''MaxWeeksPayable'',
        ''BestWeeksRequired'', ''date_retrieved'']"
    by (simp add: econRegionData_props_def scrape_row_def)
qed

text \<open>
  The lookup of \<open>K1A0A1\<close> on the empty store, followed by the same lookup on
  the store it leaves.
\<close>

theorem hit_returns_row_stored_by_miss_witness:
  "postal_upsert_ok ottawa_env
   \<and> scrape_handler ottawa_env empty_store ''K1A0A1'' =
       (Json200 (PostalData ottawa_postalData (EconRegionData ottawa_tableData 1000003)),
        ottawa_store, ottawa_miss_trace)
   \<and> \<not> postal_select_err ottawa_env
   \<and> \<not> isDataStale (now_postal_check ottawa_env) (postal_stamp ottawa_postalData)
   \<and> fst (scrape_handler ottawa_env ottawa_store ''K1A0A1'') =
       Json200 (PostalRow ottawa_postal_row (EconRow ottawa_region_row))
   \<and> region_upsert_ok ottawa_env
   \<and> getEconomicRegionData ottawa_env ottawa_postal_only_store (Str ''Ottawa'')
        (Str ''region/35.aspx'') =
       (Inr (EconRegionData ottawa_tableData 1000003), ottawa_store,
        [Await (RegionSelect (Str ''Ottawa'')),
         Await (RegionPageGet ''https://srv129.services.gc.ca/ei_regions/eng/region/35.aspx''),
         Fire (RegionUpsert (Str ''Ottawa'') ottawa_tableData 1000003)])
   \<and> \<not> region_select_err ottawa_env
   \<and> \<not> isDataStale (now_region_check ottawa_env) 1000003
   \<and> region_params (Str ''Ottawa'') ottawa_tableData 1000003 = Some ottawa_region_row
   \<and> ottawa_postal_row = postal_params ''K1A0A1'' ottawa_postalData
   \<and> getEconomicRegionData ottawa_env ottawa_store (Str ''Ottawa'') (Str ''region/35.aspx'') =
       (Inr (EconRow ottawa_region_row), ottawa_store, [Await (RegionSelect (Str ''Ottawa''))])"
proof -
  have a1: "postal_upsert_ok ottawa_env" and a3: "\<not> postal_select_err ottawa_env"
    and a4: "\<not> isDataStale (now_postal_check ottawa_env) (postal_stamp ottawa_postalData)"
    and b1: "region_upsert_ok ottawa_env" and b3: "\<not> region_select_err ottawa_env"
    and b4: "\<not> isDataStale (now_region_check ottawa_env) 1000003"
    by (simp_all add: ottawa_env_def ottawa_postalData_def isDataStale_def THIRTY_DAYS_IN_MS_def)
  have a5: "fst (scrape_handler ottawa_env ottawa_store ''K1A0A1'') =
       Json200 (PostalRow ottawa_postal_row (EconRow ottawa_region_row))"
    by (simp add: ottawa_hit_run)
  have b2: "getEconomicRegionData ottawa_env ottawa_postal_only_store (Str ''Ottawa'')
        (Str ''region/35.aspx'') =
       (Inr (EconRegionData ottawa_tableData 1000003), ottawa_store,
        [Await (RegionSelect (Str ''Ottawa'')),
         Await (RegionPageGet ''https://srv129.services.gc.ca/ei_regions/eng/region/35.aspx''),
         Fire (RegionUpsert (Str ''Ottawa'') ottawa_tableData 1000003)])"
    by (simp add: run_eval example_eval page_eval)
  have b5: "region_params (Str ''Ottawa'') ottawa_tableData 1000003 = Some ottawa_region_row"
    by (simp add: region_params_def ottawa_tableData_def ottawa_region_row_def)
  note inst = hit_returns_row_stored_by_miss
    [of ottawa_env empty_store "''K1A0A1''" ottawa_postalData
      "EconRegionData ottawa_tableData 1000003" ottawa_store ottawa_miss_trace ottawa_env
      "PostalRow ottawa_postal_row (EconRow ottawa_region_row)"
      ottawa_postal_only_store "''Ottawa''" "Str ''region/35.aspx''" ottawa_tableData 1000003
      ottawa_store
      "[Await (RegionSelect (Str ''Ottawa'')),
        Await (RegionPageGet ''https://srv129.services.gc.ca/ei_regions/eng/region/35.aspx''),
        Fire (RegionUpsert (Str ''Ottawa'') ottawa_tableData 1000003)]"
      "Str ''region/35.aspx''"]
  from inst [THEN conjunct1, THEN mp, OF conjI, OF a1 conjI, OF ottawa_miss_run conjI,
      OF a3 conjI, OF a4 a5]
  have c1: "ottawa_postal_row = postal_params ''K1A0A1'' ottawa_postalData"
    by simp
  from inst [THEN conjunct2, THEN conjunct1, THEN mp, OF conjI, OF b1 conjI, OF b2 conjI,
      OF b3 b4] b5
  have c2: "getEconomicRegionData ottawa_env ottawa_store (Str ''Ottawa'')
       (Str ''region/35.aspx'') =
       (Inr (EconRow ottawa_region_row), ottawa_store, [Await (RegionSelect (Str ''Ottawa''))])"
    by simp
  show ?thesis
    by (intro conjI) (rule a1 a3 a4 a5 b1 b2 b3 b4 b5 c1 c2 ottawa_miss_run)+
qed

text \<open>
  Against C10 as stated: the same lookup on the empty store and on the store it leaves,
  with the same data, answers with two different bodies.
\<close>

theorem hit_and_miss_bodies_differ:
  "fst (snd (scrape_handler ottawa_env empty_store ''K1A0A1'')) = ottawa_store
   \<and> response_body (fst (scrape_handler ottawa_env empty_store ''K1A0A1'')) =
       Some (JObject [(''data'', JArray [JObject
         [(''PostalCode'', JString ''K1A0A1''),
          (''CensusSubdivisionName'', JString ''Ottawa''),
          (''CommonName'', JString ''Ottawa''),
          (''CensusDivisionName'', JString ''Ottawa''),
          (''EIEconomicRegionName'', JString ''Ottawa''),
          (''EIEconomicRegionURL'', JString ''region/35.aspx''),
          (''date_retrieved'', JDate 1000001),
          (''EconomicRegionDetails'', JObject
            [(''Province'', JString ''ON''),
             (''EconomicRegionCode'', JString ''3520''),
             (''EconomicRegionName'', JString ''Ottawa''),
             (''UnemploymentRate'', JString ''5.6''),
             (''InsuredHoursRequired'', JString ''420''),
             (''MinWeeksPayable'', JString ''14''),
             (''MaxWeeksPayable'', JString ''45''),
             (''BestWeeksRequired'', JString ''14-22''),
             (''date_retrieved'', JDate 1000003)])]])])
   \<and> response_body (fst (scrape_handler ottawa_env ottawa_store ''K1A0A1'')) =
       Some (JObject [(''data'', JArray [JObject
         [(''postal_code'', JString ''K1A0A1''),
          (''census_subdivision_name'', JString ''Ottawa''),
          (''common_name'', JString ''Ottawa''),
          (''census_division_name'', JString ''Ottawa''),
          (''ei_economic_region_name'', JString ''Ottawa''),
          (''ei_economic_region_url'', JString ''region/35.aspx''),
          (''date_retrieved'', JDate 1000001),
          (''EconomicRegionDetails'', JObject
            [(''economic_region_name'', JString ''Ottawa''),
             (''province'', JString ''ON''),
             (''economic_region_code'', JString ''3520''),
             (''unemployment_rate'', JString ''5.6''),
             (''insured_hours_required'', JString ''420''),
             (''min_weeks_payable'', JString ''14''),
             (''max_weeks_payable'', JString ''45''),
             (''best_weeks_required'', JString ''14-22''),
             (''date_retrieved'', JDate 1000003)])]])])
   \<and> response_body (fst (scrape_handler ottawa_env empty_store ''K1A0A1'')) \<noteq>
       response_body (fst (scrape_handler ottawa_env ottawa_store ''K1A0A1''))"
  by (simp add: ottawa_miss_run ottawa_hit_run)
    (simp add: postalData_props_def postalRow_props_def econRow_props_def
      econRegionData_props_def ottawa_postalData_def ottawa_tableData_def ottawa_postal_row_def
      ottawa_region_row_def)

end
